theory Spec2Isabelle
  imports Complex_Main "HOL-Library.Word"
begin

section \<open>Basic types (basic\_types.hpp)\<close>

text \<open>
  The process half of the library (\<open>Popen\<close>, \<open>ProcessBuilder\<close>, \<open>run\<close>) is compiled
  for the handle/console-event platform only: the source has no body for \<open>poll\<close>,
  \<open>wait\<close> and \<open>send_signal\<close> on the other platform. The pipe primitives exist for
  both platforms and are modelled for both.

  A \<open>HANDLE\<close> is an opaque address, modelled as a natural number; \<open>nullptr\<close> is 0.
  \<open>DWORD\<close> is an unsigned 32-bit word, \<open>int64_t\<close> a 64-bit word read with \<open>sint\<close>.
  A \<open>double\<close> (the timeout in seconds) is a \<open>real\<close>; the one computation on doubles,
  the milliseconds of a timeout, is left to the platform (\<open>ms_of_seconds\<close> below).
  \<open>size_t\<close> is a natural number and \<open>ssize_t\<close> an integer (64-bit build).
\<close>

type_synonym HANDLE = nat
type_synonym DWORD = "32 word"
type_synonym int64_t = "64 word"
type_synonym CommandLine = "string list"
type_synonym EnvMap = "(string \<times> string) list"

definition kBadPipeValue :: HANDLE where
  "kBadPipeValue = 0"

definition kBadReturnCode :: int64_t where
  "kBadReturnCode = - 1000"

text \<open>\<open>enum class SigNum\<close>: an integer; the enumerators the process code compares with.\<close>

type_synonym SigNum = int

definition PSIGHUP :: SigNum where "PSIGHUP = 1"
definition PSIGINT :: SigNum where "PSIGINT = 2"
definition PSIGQUIT :: SigNum where "PSIGQUIT = 3"
definition PSIGKILL :: SigNum where "PSIGKILL = 9"
definition PSIGTERM :: SigNum where "PSIGTERM = 15"

text \<open>\<open>enum class PipeOption\<close>; the constructors carry a prefix, since \<open>cout\<close> and
  \<open>cerr\<close> are fields of \<open>Popen\<close> too.\<close>

datatype PipeOption =
  PO_inherit | PO_cout | PO_cerr | PO_specific | PO_pipe | PO_close | PO_none

text \<open>The exceptions of the library, and the standard exceptions its code can raise.
  \<open>TimeoutExpired_what\<close> is the inherited one-argument constructor (message only),
  which \<open>Popen::wait\<close> uses; \<open>undefined_behavior\<close> marks the places where the C++ has
  no defined meaning (indexing an empty vector); \<open>std_terminate\<close> is an exception
  leaving a destructor or a \<open>noexcept\<close> function.\<close>

datatype error =
    OSError string
  | CommandNotFoundError string
  | SpawnError string
  | TimeoutExpired_what string
  | TimeoutExpired string CommandLine real string string
  | CalledProcessError string CommandLine int64_t string string
  | invalid_argument string
  | domain_error string
  | bad_variant_access
  | undefined_behavior string
  | std_terminate

text \<open>\<open>struct CompletedProcess\<close> (fields prefixed with \<open>cp_\<close>).\<close>

record CompletedProcess =
  cp_args :: CommandLine
  cp_returncode :: int64_t
  cp_cout :: string
  cp_cerr :: string

definition CompletedProcess_default :: CompletedProcess where
  "CompletedProcess_default =
     \<lparr>cp_args = [], cp_returncode = - 1, cp_cout = [], cp_cerr = []\<rparr>"

definition CompletedProcess_bool :: "CompletedProcess \<Rightarrow> bool" where
  "CompletedProcess_bool c = (cp_returncode c = 0)"

text \<open>\<open>std::to_string\<close> on an unsigned value: its decimal digits.\<close>

fun to_string :: "nat \<Rightarrow> string" where
  "to_string n =
     (if n < 10 then [''0123456789'' ! n]
      else to_string (n div 10) @ [''0123456789'' ! (n mod 10)])"

declare to_string.simps [simp del]

section \<open>The native layer\<close>

text \<open>
  Every call that leaves the library (the operating system, the standard output of the
  parent, the path resolver \<open>find_program\<close>) is logged in a trace, in order. What a
  call returns is not fixed by the library: it is given by a record of functions of the
  trace so far and the call's arguments, so a theorem about an arbitrary \<open>native\<close>
  holds whatever the platform answers, and "no native call is made" is "the trace is
  unchanged". The two string helpers of the builder (the escaping of one argument, whose
  two-argument overload is not in the source, and the environment block) are functions of
  their argument alone, and so is \<open>ms_of_seconds\<close>, the floating-point arithmetic that
  turns a timeout in seconds into milliseconds.
\<close>

record PROCESS_INFORMATION =
  hProcess :: HANDLE
  hThread :: HANDLE
  dwProcessId :: DWORD
  dwThreadId :: DWORD

record STARTUPINFO =
  hStdInput :: HANDLE
  hStdOutput :: HANDLE
  hStdError :: HANDLE

record create_process_args =
  lpApplicationName :: string
  lpCommandLine :: string
  dwCreationFlags :: DWORD
  lpEnvironment :: "string option"
  lpCurrentDirectory :: "string option"
  lpStartupInfo :: STARTUPINFO

datatype call =
    Call_WaitForSingleObject HANDLE DWORD
  | Call_GetExitCodeProcess HANDLE
  | Call_GetLastError
  | Call_FormatMessage DWORD
  | Call_LocalFree
  | Call_CreateToolhelp32Snapshot
  | Call_Process32First HANDLE
  | Call_Process32Next HANDLE
  | Call_OpenProcess DWORD
  | Call_TerminateProcess HANDLE DWORD
  | Call_CloseHandle HANDLE
  | Call_GenerateConsoleCtrlEvent DWORD DWORD
  | Call_ReadFile HANDLE DWORD
  | Call_CreatePipe bool
  | Call_SetHandleInformation HANDLE DWORD DWORD
  | Call_GetStdHandle DWORD
  | Call_CreateProcess create_process_args
  | Call_find_program string
  | Call_stdout_write string
  | Call_start_thread string HANDLE
  | Call_posix_read int nat
  | Call_posix_close int

type_synonym trace = "call list"

record native =
  WaitForSingleObject :: "trace \<Rightarrow> HANDLE \<Rightarrow> DWORD \<Rightarrow> DWORD"
  GetExitCodeProcess :: "trace \<Rightarrow> HANDLE \<Rightarrow> bool \<times> DWORD"
  GetLastError :: "trace \<Rightarrow> DWORD"
  FormatMessage :: "trace \<Rightarrow> DWORD \<Rightarrow> string"
  process_snapshot :: "trace \<Rightarrow> (HANDLE \<times> (DWORD \<times> DWORD) list) option"
  OpenProcess :: "trace \<Rightarrow> DWORD \<Rightarrow> HANDLE"
  TerminateProcess :: "trace \<Rightarrow> HANDLE \<Rightarrow> DWORD \<Rightarrow> bool"
  CloseHandle :: "trace \<Rightarrow> HANDLE \<Rightarrow> bool"
  GenerateConsoleCtrlEvent :: "trace \<Rightarrow> DWORD \<Rightarrow> DWORD \<Rightarrow> bool"
  ReadFile :: "trace \<Rightarrow> HANDLE \<Rightarrow> DWORD \<Rightarrow> bool \<times> string"
  CreatePipe :: "trace \<Rightarrow> bool \<Rightarrow> (HANDLE \<times> HANDLE) option"
  SetHandleInformation :: "trace \<Rightarrow> HANDLE \<Rightarrow> DWORD \<Rightarrow> DWORD \<Rightarrow> bool"
  GetStdHandle :: "trace \<Rightarrow> DWORD \<Rightarrow> HANDLE"
  CreateProcess :: "trace \<Rightarrow> create_process_args \<Rightarrow> PROCESS_INFORMATION option"
  find_program :: "trace \<Rightarrow> string \<Rightarrow> string"
  escape_shell_arg :: "string \<Rightarrow> string"
  create_env_block :: "EnvMap \<Rightarrow> string"
  posix_read :: "trace \<Rightarrow> int \<Rightarrow> nat \<Rightarrow> int \<times> string"
  posix_close :: "trace \<Rightarrow> int \<Rightarrow> int"
  ms_of_seconds :: "real \<Rightarrow> DWORD"

text \<open>Constants of the platform headers.\<close>

definition WAIT_OBJECT_0 :: DWORD where "WAIT_OBJECT_0 = 0"
definition WAIT_ABANDONED :: DWORD where "WAIT_ABANDONED = 0x80"
definition WAIT_TIMEOUT :: DWORD where "WAIT_TIMEOUT = 0x102"
definition WAIT_FAILED :: DWORD where "WAIT_FAILED = 0xFFFFFFFF"
definition INFINITE :: DWORD where "INFINITE = 0xFFFFFFFF"
definition CTRL_C_EVENT :: DWORD where "CTRL_C_EVENT = 0"
definition CTRL_BREAK_EVENT :: DWORD where "CTRL_BREAK_EVENT = 1"
definition HANDLE_FLAG_INHERIT :: DWORD where "HANDLE_FLAG_INHERIT = 1"
definition STD_INPUT_HANDLE :: DWORD where "STD_INPUT_HANDLE = - 10"
definition STD_OUTPUT_HANDLE :: DWORD where "STD_OUTPUT_HANDLE = - 11"
definition STD_ERROR_HANDLE :: DWORD where "STD_ERROR_HANDLE = - 12"
definition CREATE_UNICODE_ENVIRONMENT :: DWORD where "CREATE_UNICODE_ENVIRONMENT = 0x400"
definition CREATE_NEW_PROCESS_GROUP :: DWORD where "CREATE_NEW_PROCESS_GROUP = 0x200"

text \<open>\<open>LastErrorString\<close> (builder.cpp): the text of \<open>GetLastError()\<close>, through
  \<open>FormatMessage\<close>; the buffer is released with \<open>LocalFree\<close>.\<close>

definition LastErrorString :: "native \<Rightarrow> trace \<Rightarrow> string \<times> trace" where
  "LastErrorString os tr =
     (let dw = GetLastError os tr;
          tr1 = tr @ [Call_GetLastError];
          message = FormatMessage os tr1 dw;
          tr2 = tr1 @ [Call_FormatMessage dw]
      in (message, tr2 @ [Call_LocalFree]))"

section \<open>The live process (struct Popen)\<close>

record Popen =
  cin :: HANDLE
  cout :: HANDLE
  cerr :: HANDLE
  pid :: DWORD
  returncode :: int64_t
  args :: CommandLine
  m_soft_kill :: bool
  process_info :: PROCESS_INFORMATION

definition PROCESS_INFORMATION_zero :: PROCESS_INFORMATION where
  "PROCESS_INFORMATION_zero =
     \<lparr>hProcess = 0, hThread = 0, dwProcessId = 0, dwThreadId = 0\<rparr>"

text \<open>Modelled from the spec: the declaration of \<open>m_soft_kill\<close> is not in the source
  (only its uses in \<open>kill\<close> and in the move assignment are); the spec calls it a
  preference that may be set on the Process, so a fresh \<open>Popen\<close> has it unset.\<close>

definition Popen_default :: Popen where
  "Popen_default =
     \<lparr>cin = kBadPipeValue, cout = kBadPipeValue, cerr = kBadPipeValue, pid = 0,
      returncode = kBadReturnCode, args = [], m_soft_kill = False,
      process_info = PROCESS_INFORMATION_zero\<rparr>"

text \<open>\<open>static_cast<DWORD>(timeout < 0.0F ? INFINITE : timeout * 1000.0)\<close>. A negative
  timeout gives \<open>INFINITE\<close>. For any other timeout the product is a product of doubles
  (rounded), and its conversion to \<open>DWORD\<close> truncates and is not defined out of range:
  that arithmetic is not modelled, its result is the answer \<open>ms_of_seconds\<close> of the
  platform.\<close>

definition timeout_ms :: "native \<Rightarrow> real \<Rightarrow> DWORD" where
  "timeout_ms os timeout = (if timeout < 0 then INFINITE else ms_of_seconds os timeout)"

text \<open>The tail shared by \<open>poll\<close> and \<open>wait\<close>: the branches on the result \<open>wr\<close> of
  \<open>WaitForSingleObject\<close> other than \<open>WAIT_TIMEOUT\<close>. \<open>tr\<close> is the trace after that call.\<close>

definition wait_result :: "native \<Rightarrow> DWORD \<Rightarrow> Popen \<Rightarrow> trace \<Rightarrow> (error + unit) \<times> Popen \<times> trace" where
  "wait_result os wr p tr =
     (if wr = WAIT_ABANDONED then
        (let error = GetLastError os tr
         in (Inl (OSError (''WAIT_ABANDONED error:'' @ to_string (unat error))), p,
             tr @ [Call_GetLastError]))
      else if wr = WAIT_FAILED then
        (let error = GetLastError os tr;
             (s, tr2) = LastErrorString os (tr @ [Call_GetLastError])
         in (Inl (OSError (''WAIT_FAILED error:'' @ to_string (unat error) @ '':'' @ s)), p, tr2))
      else if wr \<noteq> WAIT_OBJECT_0 then
        (Inl (OSError (''WaitForSingleObject failed: '' @ to_string (unat wr))), p, tr)
      else
        (let (ret, excode) = GetExitCodeProcess os tr (hProcess (process_info p));
             tr1 = tr @ [Call_GetExitCodeProcess (hProcess (process_info p))]
         in if \<not> ret then
              (let error = GetLastError os tr1;
                   (s, tr2) = LastErrorString os (tr1 @ [Call_GetLastError])
               in (Inl (OSError (''GetExitCodeProcess failed: '' @ to_string (unat error)
                                  @ '':'' @ s)), p, tr2))
            else (Inr (), p\<lparr>returncode := ucast excode\<rparr>, tr1)))"

definition poll :: "native \<Rightarrow> Popen \<Rightarrow> trace \<Rightarrow> (error + bool) \<times> Popen \<times> trace" where
  "poll os p tr =
     (if returncode p \<noteq> kBadReturnCode then (Inr True, p, tr)
      else
        (let ms = 0;
             wr = WaitForSingleObject os tr (hProcess (process_info p)) ms;
             tr1 = tr @ [Call_WaitForSingleObject (hProcess (process_info p)) ms]
         in if wr = WAIT_TIMEOUT then (Inr False, p, tr1)
            else (case wait_result os wr p tr1 of
                    (Inl e, p', tr') \<Rightarrow> (Inl e, p', tr')
                  | (Inr u, p', tr') \<Rightarrow> (Inr True, p', tr'))))"

definition wait :: "native \<Rightarrow> real \<Rightarrow> Popen \<Rightarrow> trace \<Rightarrow> (error + int64_t) \<times> Popen \<times> trace" where
  "wait os timeout p tr =
     (if returncode p = kBadReturnCode then
        (let ms = timeout_ms os timeout;
             wr = WaitForSingleObject os tr (hProcess (process_info p)) ms;
             tr1 = tr @ [Call_WaitForSingleObject (hProcess (process_info p)) ms]
         in if wr = WAIT_TIMEOUT then
              (Inl (TimeoutExpired_what (''timeout of '' @ to_string (unat ms) @ '' expired'')),
               p, tr1)
            else (case wait_result os wr p tr1 of
                    (Inl e, p', tr') \<Rightarrow> (Inl e, p', tr')
                  | (Inr u, p', tr') \<Rightarrow> (Inr (returncode p'), p', tr')))
      else (Inr (returncode p), p, tr))"

text \<open>\<open>GetChildProcessIDs\<close>. The answer \<open>process_snapshot\<close> of the platform is
  what \<open>CreateToolhelp32Snapshot\<close> returns, \<open>None\<close> for \<open>INVALID_HANDLE_VALUE\<close>,
  otherwise the handle of the snapshot with the (process id, parent process id) entries
  that \<open>Process32First\<close> and \<open>Process32Next\<close> enumerate from it. The loop calls
  \<open>Process32First\<close> once and, when there is an entry, \<open>Process32Next\<close> once for
  each entry (the last call finds no more); then the snapshot is closed.\<close>

definition GetChildProcessIDs :: "native \<Rightarrow> DWORD \<Rightarrow> trace \<Rightarrow> DWORD list \<times> trace" where
  "GetChildProcessIDs os parentProcessID tr =
     (case process_snapshot os tr of
        None \<Rightarrow> ([], tr @ [Call_CreateToolhelp32Snapshot])
      | Some (hSnapshot, entries) \<Rightarrow>
          (map fst (filter (\<lambda>pe32. snd pe32 = parentProcessID) entries),
           tr @ [Call_CreateToolhelp32Snapshot, Call_Process32First hSnapshot]
              @ replicate (length entries) (Call_Process32Next hSnapshot)
              @ [Call_CloseHandle hSnapshot]))"

definition TerminateProcessByID :: "native \<Rightarrow> DWORD \<Rightarrow> trace \<Rightarrow> trace" where
  "TerminateProcessByID os processID tr =
     (let h = OpenProcess os tr processID;
          tr1 = tr @ [Call_OpenProcess processID]
      in if h \<noteq> 0 then tr1 @ [Call_TerminateProcess h 0, Call_CloseHandle h] else tr1)"

definition send_signal :: "native \<Rightarrow> SigNum \<Rightarrow> Popen \<Rightarrow> trace \<Rightarrow> bool \<times> trace" where
  "send_signal os signum p tr =
     (let (result, tr1) =
        (if returncode p \<noteq> kBadReturnCode then (False, tr)
         else if signum = PSIGKILL then
           (let (ids, tr2) = GetChildProcessIDs os (dwProcessId (process_info p)) tr;
                r = TerminateProcess os tr2 (hProcess (process_info p)) 137;
                tr3 = tr2 @ [Call_TerminateProcess (hProcess (process_info p)) 137]
            in (r, foldl (\<lambda>t i. TerminateProcessByID os i t) tr3 ids))
         else if signum = PSIGINT then
           (GenerateConsoleCtrlEvent os tr CTRL_C_EVENT 0,
            tr @ [Call_GenerateConsoleCtrlEvent CTRL_C_EVENT 0])
         else
           (GenerateConsoleCtrlEvent os tr CTRL_BREAK_EVENT (pid p),
            tr @ [Call_GenerateConsoleCtrlEvent CTRL_BREAK_EVENT (pid p)]))
      in if \<not> result then
           (let (str, tr4) = LastErrorString os tr1
            in (result, tr4 @ [Call_stdout_write (''error: '' @ str @ [CHR 0x0A])]))
         else (result, tr1))"

definition terminate :: "native \<Rightarrow> Popen \<Rightarrow> trace \<Rightarrow> bool \<times> trace" where
  "terminate os p tr = send_signal os PSIGTERM p tr"

definition kill :: "native \<Rightarrow> Popen \<Rightarrow> trace \<Rightarrow> bool \<times> trace" where
  "kill os p tr =
     (if m_soft_kill p then send_signal os PSIGTERM p tr else send_signal os PSIGKILL p tr)"

section \<open>Pipe primitives (pipe.cpp)\<close>

text \<open>
  The two platform bodies of each primitive. The names of the source are those of the
  handle platform, which the process code uses; the bodies of the descriptor platform
  carry the suffix \<open>_posix\<close> (there a pipe handle is an \<open>int\<close> and the bad value
  is \<open>-1\<close>). A read returns the transfer count and the bytes now in the buffer; the
  native call never stores more than the number of bytes it is asked for, which on the
  handle platform is the size narrowed to 32 bits (\<open>static_cast<DWORD>(size)\<close>).
\<close>

definition kBadPipeValue_posix :: int where
  "kBadPipeValue_posix = - 1"

definition pipe_close :: "native \<Rightarrow> HANDLE \<Rightarrow> trace \<Rightarrow> bool \<times> trace" where
  "pipe_close os handle tr = (CloseHandle os tr handle, tr @ [Call_CloseHandle handle])"

definition pipe_close_posix :: "native \<Rightarrow> int \<Rightarrow> trace \<Rightarrow> bool \<times> trace" where
  "pipe_close_posix os handle tr =
     (if handle = kBadPipeValue_posix then (False, tr)
      else (posix_close os tr handle = 0, tr @ [Call_posix_close handle]))"

definition pipe_read :: "native \<Rightarrow> HANDLE \<Rightarrow> nat \<Rightarrow> trace \<Rightarrow> (int \<times> string) \<times> trace" where
  "pipe_read os handle sz tr =
     (let nNumberOfBytesToRead = (of_nat sz :: DWORD);
          (result, data) = ReadFile os tr handle nNumberOfBytesToRead;
          buffer = take (unat nNumberOfBytesToRead) data;
          bread = length buffer
      in ((if result then int bread else - 1, buffer),
          tr @ [Call_ReadFile handle nNumberOfBytesToRead]))"

definition pipe_read_posix :: "native \<Rightarrow> int \<Rightarrow> nat \<Rightarrow> trace \<Rightarrow> (int \<times> string) \<times> trace" where
  "pipe_read_posix os handle sz tr =
     (let (n, data) = posix_read os tr handle sz
      in ((n, take sz data), tr @ [Call_posix_read handle sz]))"

text \<open>\<open>pipe_read_all\<close>: the do-while loop, then the function. \<open>None\<close>: the loop
  never ends.\<close>

partial_function (option) pipe_read_all_loop ::
  "native \<Rightarrow> HANDLE \<Rightarrow> string \<Rightarrow> trace \<Rightarrow> (string \<times> trace) option" where
  "pipe_read_all_loop os handle result tr =
     (case pipe_read os handle 2048 tr of
        ((transfered, buf), tr1) \<Rightarrow>
          if transfered > 0
          then pipe_read_all_loop os handle (result @ take (nat transfered) buf) tr1
          else Some (result, tr1))"

definition pipe_read_all :: "native \<Rightarrow> HANDLE \<Rightarrow> trace \<Rightarrow> (string \<times> trace) option" where
  "pipe_read_all os handle tr =
     (if handle \<noteq> kBadPipeValue then pipe_read_all_loop os handle [] tr else Some ([], tr))"

text \<open>\<open>pipe_ignore_and_close\<close> starts a detached thread. The model gives the calls of
  that thread, run from the trace at its start: the loop
  \<open>while (pipe_read(...) >= 0) {}\<close>, then \<open>pipe_close\<close>. \<open>None\<close>: the thread never
  leaves the loop, so the handle is never closed.\<close>

partial_function (option) pipe_ignore_loop :: "native \<Rightarrow> HANDLE \<Rightarrow> trace \<Rightarrow> trace option" where
  "pipe_ignore_loop os handle tr =
     (case pipe_read os handle 1024 tr of
        ((n, buf), tr1) \<Rightarrow> if n \<ge> 0 then pipe_ignore_loop os handle tr1 else Some tr1)"

definition pipe_ignore_and_close :: "native \<Rightarrow> HANDLE \<Rightarrow> trace \<Rightarrow> trace option" where
  "pipe_ignore_and_close os handle tr =
     (if handle \<noteq> kBadPipeValue then
        (case pipe_ignore_loop os handle tr of
           None \<Rightarrow> None
         | Some tr1 \<Rightarrow> Some (snd (pipe_close os handle tr1)))
      else Some tr)"

partial_function (option) pipe_ignore_loop_posix :: "native \<Rightarrow> int \<Rightarrow> trace \<Rightarrow> trace option" where
  "pipe_ignore_loop_posix os handle tr =
     (case pipe_read_posix os handle 1024 tr of
        ((n, buf), tr1) \<Rightarrow> if n \<ge> 0 then pipe_ignore_loop_posix os handle tr1 else Some tr1)"

definition pipe_ignore_and_close_posix :: "native \<Rightarrow> int \<Rightarrow> trace \<Rightarrow> trace option" where
  "pipe_ignore_and_close_posix os handle tr =
     (if handle \<noteq> kBadPipeValue_posix then
        (case pipe_ignore_loop_posix os handle tr of
           None \<Rightarrow> None
         | Some tr1 \<Rightarrow> Some (snd (pipe_close_posix os handle tr1)))
      else Some tr)"

text \<open>\<open>struct PipePair\<close> and its members (pipe.h, pipe.cpp).\<close>

text \<open>The fields \<open>input\<close> and \<open>output\<close> carry the prefix \<open>pp_\<close>.\<close>

record PipePair =
  pp_input :: HANDLE
  pp_output :: HANDLE

definition PipePair_default :: PipePair where
  "PipePair_default = \<lparr>pp_input = kBadPipeValue, pp_output = kBadPipeValue\<rparr>"

definition disown :: "PipePair \<Rightarrow> PipePair" where
  "disown pp = pp\<lparr>pp_input := kBadPipeValue, pp_output := kBadPipeValue\<rparr>"

definition PipePair_close :: "native \<Rightarrow> PipePair \<Rightarrow> trace \<Rightarrow> PipePair \<times> trace" where
  "PipePair_close os pp tr =
     (let tr1 = (if pp_input pp \<noteq> kBadPipeValue then snd (pipe_close os (pp_input pp) tr) else tr);
          tr2 = (if pp_output pp \<noteq> kBadPipeValue then snd (pipe_close os (pp_output pp) tr1) else tr1)
      in (disown pp, tr2))"

definition close_input :: "native \<Rightarrow> PipePair \<Rightarrow> trace \<Rightarrow> PipePair \<times> trace" where
  "close_input os pp tr =
     (if pp_input pp \<noteq> kBadPipeValue
      then (pp\<lparr>pp_input := kBadPipeValue\<rparr>, snd (pipe_close os (pp_input pp) tr))
      else (pp, tr))"

definition close_output :: "native \<Rightarrow> PipePair \<Rightarrow> trace \<Rightarrow> PipePair \<times> trace" where
  "close_output os pp tr =
     (if pp_output pp \<noteq> kBadPipeValue
      then (pp\<lparr>pp_output := kBadPipeValue\<rparr>, snd (pipe_close os (pp_output pp) tr))
      else (pp, tr))"

definition PipePair_bool :: "PipePair \<Rightarrow> bool" where
  "PipePair_bool pp = (pp_input pp \<noteq> pp_output pp)"

definition pipe_create :: "native \<Rightarrow> bool \<Rightarrow> trace \<Rightarrow> (error + PipePair) \<times> trace" where
  "pipe_create os inheritable tr =
     (case CreatePipe os tr inheritable of
        None \<Rightarrow> (Inl (OSError ''could not create pipe''), tr @ [Call_CreatePipe inheritable])
      | Some (i, o') \<Rightarrow> (Inr \<lparr>pp_input = i, pp_output = o'\<rparr>, tr @ [Call_CreatePipe inheritable]))"

definition pipe_set_inheritable :: "native \<Rightarrow> HANDLE \<Rightarrow> bool \<Rightarrow> trace \<Rightarrow> error option \<times> trace" where
  "pipe_set_inheritable os handle inheritable tr =
     (if handle = kBadPipeValue
      then (Some (invalid_argument ''pipe_set_inheritable: handle is invalid''), tr)
      else
        (let flags = (if inheritable then HANDLE_FLAG_INHERIT else 0);
             success = SetHandleInformation os tr handle HANDLE_FLAG_INHERIT flags;
             tr1 = tr @ [Call_SetHandleInformation handle HANDLE_FLAG_INHERIT flags]
         in if \<not> success then (Some (OSError ''SetHandleInformation failed''), tr1)
            else (None, tr1)))"

section \<open>Closing a process (Popen::close, the destructor, the move assignment)\<close>

definition Popen_close :: "native \<Rightarrow> Popen \<Rightarrow> trace \<Rightarrow> (error + unit) \<times> Popen \<times> trace" where
  "Popen_close os p tr =
     (let tr1 = (if cin p \<noteq> kBadPipeValue then snd (pipe_close os (cin p) tr) else tr);
          tr2 = (if cout p \<noteq> kBadPipeValue then snd (pipe_close os (cout p) tr1) else tr1);
          tr3 = (if cerr p \<noteq> kBadPipeValue then snd (pipe_close os (cerr p) tr2) else tr2);
          p1 = p\<lparr>cin := kBadPipeValue, cout := kBadPipeValue, cerr := kBadPipeValue\<rparr>
      in if pid p1 > 0 then
           (case wait os (- 1) p1 tr3 of
              (Inl e, p2, tr4) \<Rightarrow> (Inl e, p2, tr4)
            | (Inr c, p2, tr4) \<Rightarrow>
                (Inr (), p2\<lparr>pid := 0, returncode := kBadReturnCode, args := []\<rparr>,
                 tr4 @ [Call_CloseHandle (hProcess (process_info p2)),
                        Call_CloseHandle (hThread (process_info p2))]))
         else (Inr (), p1\<lparr>pid := 0, returncode := kBadReturnCode, args := []\<rparr>, tr3))"

text \<open>\<open>~Popen\<close> calls \<open>close\<close>; an exception leaving it ends the program.\<close>

definition Popen_destructor :: "native \<Rightarrow> Popen \<Rightarrow> trace \<Rightarrow> error option \<times> trace" where
  "Popen_destructor os p tr =
     (case Popen_close os p tr of
        (Inl e, p', tr') \<Rightarrow> (Some std_terminate, tr')
      | (Inr u, p', tr') \<Rightarrow> (None, tr'))"

text \<open>\<open>Popen::operator=(Popen&&)\<close>, \<open>noexcept\<close>: closes the target, then takes the
  fields of \<open>other\<close> (which is left empty, so its destructor does nothing).\<close>

definition Popen_move_assign :: "native \<Rightarrow> Popen \<Rightarrow> Popen \<Rightarrow> trace \<Rightarrow> (error + Popen) \<times> trace" where
  "Popen_move_assign os this other tr =
     (case Popen_close os this tr of
        (Inl e, p', tr') \<Rightarrow> (Inl std_terminate, tr')
      | (Inr u, p', tr') \<Rightarrow>
          (Inr (p'\<lparr>cin := cin other, cout := cout other, cerr := cerr other, pid := pid other,
                   returncode := returncode other, args := args other,
                   m_soft_kill := m_soft_kill other, process_info := process_info other\<rparr>),
           tr'))"

section \<open>Redirect targets and run options (pipevar.hpp, builder.h)\<close>

text \<open>\<open>PipeVar\<close> is a variant; stream and file pointers are opaque numbers.\<close>

datatype PipeVar =
    PV_option PipeOption
  | PV_string string
  | PV_handle HANDLE
  | PV_istream nat
  | PV_ostream nat
  | PV_file nat

datatype PipeVarIndex =
  PVI_option | PVI_string | PVI_handle | PVI_istream | PVI_ostream | PVI_file

fun index :: "PipeVar \<Rightarrow> PipeVarIndex" where
  "index (PV_option x) = PVI_option"
| "index (PV_string x) = PVI_string"
| "index (PV_handle x) = PVI_handle"
| "index (PV_istream x) = PVI_istream"
| "index (PV_ostream x) = PVI_ostream"
| "index (PV_file x) = PVI_file"

text \<open>\<open>get_pipe_option\<close>: in the \<open>option\<close> case, \<open>std::get<PipeOption>\<close> cannot fail.\<close>

definition get_pipe_option :: "PipeVar \<Rightarrow> PipeOption" where
  "get_pipe_option opt =
     (case index opt of
        PVI_option \<Rightarrow> (case opt of PV_option x \<Rightarrow> x | _ \<Rightarrow> PO_pipe)
      | PVI_handle \<Rightarrow> PO_specific
      | _ \<Rightarrow> PO_pipe)"

text \<open>\<open>struct RunOptions\<close> (fields prefixed with \<open>opt_\<close>). The fields
  \<open>create_no_window\<close> and \<open>detached_process\<close>, which \<open>Popen::init\<close> copies, are not
  declared in the source and \<open>run_command\<close> does not read them; they are left out.\<close>

record RunOptions =
  opt_cin :: PipeVar
  opt_cout :: PipeVar
  opt_cerr :: PipeVar
  opt_new_process_group :: bool
  opt_cwd :: string
  opt_timeout :: real
  opt_raise_on_nonzero :: bool
  opt_env :: EnvMap

definition RunOptions_default :: RunOptions where
  "RunOptions_default =
     \<lparr>opt_cin = PV_option PO_inherit, opt_cout = PV_option PO_inherit,
      opt_cerr = PV_option PO_inherit, opt_new_process_group = False, opt_cwd = [],
      opt_timeout = - 1, opt_raise_on_nonzero = False, opt_env = []\<rparr>"

section \<open>The process builder (builder.h, builder\_windows.cpp)\<close>

record ProcessBuilder =
  cerr_option :: PipeOption
  cerr_pipe :: HANDLE
  cin_option :: PipeOption
  cin_pipe :: HANDLE
  cout_option :: PipeOption
  cout_pipe :: HANDLE
  new_process_group :: bool
  command :: CommandLine
  env :: EnvMap
  cwd :: string

definition ProcessBuilder_default :: ProcessBuilder where
  "ProcessBuilder_default =
     \<lparr>cerr_option = PO_inherit, cerr_pipe = kBadPipeValue,
      cin_option = PO_inherit, cin_pipe = kBadPipeValue,
      cout_option = PO_inherit, cout_pipe = kBadPipeValue,
      new_process_group = False, command = [], env = [], cwd = []\<rparr>"

definition disable_inherit :: "native \<Rightarrow> HANDLE \<Rightarrow> trace \<Rightarrow> bool \<times> trace" where
  "disable_inherit os handle tr =
     (SetHandleInformation os tr handle HANDLE_FLAG_INHERIT 0,
      tr @ [Call_SetHandleInformation handle HANDLE_FLAG_INHERIT 0])"

text \<open>\<open>ProcessBuilder::windows_args\<close>: the escaped arguments, separated by blanks.\<close>

fun windows_args_from :: "native \<Rightarrow> nat \<Rightarrow> CommandLine \<Rightarrow> string" where
  "windows_args_from os i [] = []"
| "windows_args_from os i (c # cs) =
     (if i > 0 then '' '' else []) @ escape_shell_arg os c @ windows_args_from os (Suc i) cs"

definition windows_args :: "native \<Rightarrow> CommandLine \<Rightarrow> string" where
  "windows_args os cmd = windows_args_from os 0 cmd"

text \<open>The local objects of \<open>run_command\<close>. When an exception leaves the function they
  are destroyed in reverse order of declaration: the three pipe pairs are closed, then
  the process is closed.\<close>

record locals =
  l_process :: Popen
  l_cin_pair :: PipePair
  l_cout_pair :: PipePair
  l_cerr_pair :: PipePair
  l_si :: STARTUPINFO

definition unwind :: "native \<Rightarrow> locals \<Rightarrow> trace \<Rightarrow> trace" where
  "unwind os l tr =
     (let tr1 = snd (PipePair_close os (l_cerr_pair l) tr);
          tr2 = snd (PipePair_close os (l_cout_pair l) tr1);
          tr3 = snd (PipePair_close os (l_cin_pair l) tr2)
      in snd (Popen_destructor os (l_process l) tr3))"

text \<open>The three blocks of \<open>run_command\<close> that realise the redirect policy of one
  stream each. The result is the exception thrown, if any, with the locals and the trace
  at that point.\<close>

definition wire_cin :: "native \<Rightarrow> ProcessBuilder \<Rightarrow> locals \<Rightarrow> trace \<Rightarrow> error option \<times> locals \<times> trace" where
  "wire_cin os b l tr =
     (if cin_option b = PO_close then
        (case pipe_create os True tr of
           (Inl e, tr1) \<Rightarrow> (Some e, l, tr1)
         | (Inr pp, tr1) \<Rightarrow>
             (None, l\<lparr>l_cin_pair := pp, l_si := (l_si l)\<lparr>hStdInput := pp_input pp\<rparr>\<rparr>,
              snd (disable_inherit os (pp_output pp) tr1)))
      else if cin_option b = PO_specific then
        (case pipe_set_inheritable os (cin_pipe b) True tr of
           (Some e, tr1) \<Rightarrow> (Some e, l, tr1)
         | (None, tr1) \<Rightarrow> (None, l\<lparr>l_si := (l_si l)\<lparr>hStdInput := cin_pipe b\<rparr>\<rparr>, tr1))
      else if cin_option b = PO_pipe then
        (case pipe_create os True tr of
           (Inl e, tr1) \<Rightarrow> (Some e, l, tr1)
         | (Inr pp, tr1) \<Rightarrow>
             (None, l\<lparr>l_cin_pair := pp, l_si := (l_si l)\<lparr>hStdInput := pp_input pp\<rparr>,
                      l_process := (l_process l)\<lparr>cin := pp_output pp\<rparr>\<rparr>,
              snd (disable_inherit os (pp_output pp) tr1)))
      else (None, l, tr))"

definition wire_cout :: "native \<Rightarrow> ProcessBuilder \<Rightarrow> locals \<Rightarrow> trace \<Rightarrow> error option \<times> locals \<times> trace" where
  "wire_cout os b l tr =
     (if cout_option b = PO_close then
        (case pipe_create os True tr of
           (Inl e, tr1) \<Rightarrow> (Some e, l, tr1)
         | (Inr pp, tr1) \<Rightarrow>
             (None, l\<lparr>l_cout_pair := pp, l_si := (l_si l)\<lparr>hStdOutput := pp_output pp\<rparr>\<rparr>,
              snd (disable_inherit os (pp_input pp) tr1)))
      else if cout_option b = PO_pipe then
        (case pipe_create os True tr of
           (Inl e, tr1) \<Rightarrow> (Some e, l, tr1)
         | (Inr pp, tr1) \<Rightarrow>
             (None, l\<lparr>l_cout_pair := pp, l_si := (l_si l)\<lparr>hStdOutput := pp_output pp\<rparr>,
                      l_process := (l_process l)\<lparr>cout := pp_input pp\<rparr>\<rparr>,
              snd (disable_inherit os (pp_input pp) tr1)))
      else if cout_option b = PO_specific then
        (case pipe_set_inheritable os (cout_pipe b) True tr of
           (Some e, tr1) \<Rightarrow> (Some e, l, tr1)
         | (None, tr1) \<Rightarrow> (None, l\<lparr>l_si := (l_si l)\<lparr>hStdOutput := cout_pipe b\<rparr>\<rparr>, tr1))
      else (None, l, tr))"

definition wire_cerr :: "native \<Rightarrow> ProcessBuilder \<Rightarrow> locals \<Rightarrow> trace \<Rightarrow> error option \<times> locals \<times> trace" where
  "wire_cerr os b l tr =
     (if cerr_option b = PO_close then
        (case pipe_create os True tr of
           (Inl e, tr1) \<Rightarrow> (Some e, l, tr1)
         | (Inr pp, tr1) \<Rightarrow>
             (None, l\<lparr>l_cerr_pair := pp, l_si := (l_si l)\<lparr>hStdError := pp_output pp\<rparr>\<rparr>,
              snd (disable_inherit os (pp_input pp) tr1)))
      else if cerr_option b = PO_pipe then
        (case pipe_create os True tr of
           (Inl e, tr1) \<Rightarrow> (Some e, l, tr1)
         | (Inr pp, tr1) \<Rightarrow>
             (None, l\<lparr>l_cerr_pair := pp, l_si := (l_si l)\<lparr>hStdError := pp_output pp\<rparr>,
                      l_process := (l_process l)\<lparr>cerr := pp_input pp\<rparr>\<rparr>,
              snd (disable_inherit os (pp_input pp) tr1)))
      else if cerr_option b = PO_cout then
        (None, l\<lparr>l_si := (l_si l)\<lparr>hStdError := hStdOutput (l_si l)\<rparr>\<rparr>, tr)
      else if cerr_option b = PO_specific then
        (case pipe_set_inheritable os (cerr_pipe b) True tr of
           (Some e, tr1) \<Rightarrow> (Some e, l, tr1)
         | (None, tr1) \<Rightarrow> (None, l\<lparr>l_si := (l_si l)\<lparr>hStdError := cerr_pipe b\<rparr>\<rparr>, tr1))
      else (None, l, tr))"

text \<open>The rest of \<open>run_command\<close>, from the alias of \<open>cout\<close> to \<open>cerr\<close> on: the native
  creation call, the closing of the child's ends, and the result.\<close>

definition spawn :: "native \<Rightarrow> ProcessBuilder \<Rightarrow> string \<Rightarrow> CommandLine \<Rightarrow> locals \<Rightarrow> trace \<Rightarrow> (error + Popen) \<times> trace" where
  "spawn os b program cmdline l0 tr =
     (let l = (if cout_option b = PO_cerr
               then l0\<lparr>l_si := (l_si l0)\<lparr>hStdOutput := hStdError (l_si l0)\<rparr>\<rparr> else l0);
          l_cwd = (if cwd b = [] then None else Some (cwd b));
          args' = windows_args os cmdline;
          l_env = (if env b \<noteq> [] then Some (create_env_block os (env b)) else None);
          process_flags = (if new_process_group b
                           then or CREATE_UNICODE_ENVIRONMENT CREATE_NEW_PROCESS_GROUP
                           else CREATE_UNICODE_ENVIRONMENT);
          a = \<lparr>lpApplicationName = program, lpCommandLine = args',
               dwCreationFlags = process_flags, lpEnvironment = l_env,
               lpCurrentDirectory = l_cwd, lpStartupInfo = l_si l\<rparr>;
          created = CreateProcess os tr a;
          tr1 = tr @ [Call_CreateProcess a];
          piProcInfo = (case created of None \<Rightarrow> PROCESS_INFORMATION_zero | Some pi' \<Rightarrow> pi');
          process1 = (l_process l)\<lparr>process_info := piProcInfo, pid := dwProcessId piProcInfo\<rparr>;
          (cin_pair1, tr2) = (if PipePair_bool (l_cin_pair l)
                              then close_input os (l_cin_pair l) tr1 else (l_cin_pair l, tr1));
          (cout_pair1, tr3) = (if PipePair_bool (l_cout_pair l)
                               then close_output os (l_cout_pair l) tr2 else (l_cout_pair l, tr2));
          (cerr_pair1, tr4) = (if PipePair_bool (l_cerr_pair l)
                               then close_output os (l_cerr_pair l) tr3 else (l_cerr_pair l, tr3));
          (cin_pair2, tr5) = (if cin_option b = PO_close
                              then PipePair_close os cin_pair1 tr4 else (cin_pair1, tr4));
          (cout_pair2, tr6) = (if cout_option b = PO_close
                               then PipePair_close os cout_pair1 tr5 else (cout_pair1, tr5));
          (cerr_pair2, tr7) = (if cerr_option b = PO_close
                               then PipePair_close os cerr_pair1 tr6 else (cerr_pair1, tr6));
          process2 = process1\<lparr>args := cmdline\<rparr>;
          l2 = l\<lparr>l_process := process2, l_cin_pair := disown cin_pair2,
                 l_cout_pair := disown cout_pair2, l_cerr_pair := disown cerr_pair2\<rparr>
      in if created = None then
           (let (s, tr8) = LastErrorString os tr7
            in (Inl (SpawnError (''CreateProcess failed: '' @ s)), unwind os l2 tr8))
         else (Inr process2, tr7))"

text \<open>\<open>ProcessBuilder::run_command\<close>. \<open>init_startup_info\<close> does nothing (its flag is
  never set). The standard handles are read first.\<close>

definition run_command :: "native \<Rightarrow> ProcessBuilder \<Rightarrow> CommandLine \<Rightarrow> trace \<Rightarrow> (error + Popen) \<times> trace" where
  "run_command os b cmdline tr =
     (case cmdline of
        [] \<Rightarrow> (Inl (undefined_behavior ''cmdline[0] of an empty command line''), tr)
      | c0 # cs \<Rightarrow>
          (let program = find_program os tr c0;
               tr0 = tr @ [Call_find_program c0]
           in if program = [] then
                (Inl (CommandNotFoundError (''Command '' @ [CHR 0x22] @ c0 @ [CHR 0x22]
                                            @ '' not found.'')), tr0)
              else
                (let si = \<lparr>hStdInput = GetStdHandle os tr0 STD_INPUT_HANDLE,
                           hStdOutput =
                             GetStdHandle os (tr0 @ [Call_GetStdHandle STD_INPUT_HANDLE])
                               STD_OUTPUT_HANDLE,
                           hStdError =
                             GetStdHandle os (tr0 @ [Call_GetStdHandle STD_INPUT_HANDLE,
                                                     Call_GetStdHandle STD_OUTPUT_HANDLE])
                               STD_ERROR_HANDLE\<rparr>;
                     tr1 = tr0 @ [Call_GetStdHandle STD_INPUT_HANDLE,
                                  Call_GetStdHandle STD_OUTPUT_HANDLE,
                                  Call_GetStdHandle STD_ERROR_HANDLE];
                     l = \<lparr>l_process = Popen_default, l_cin_pair = PipePair_default,
                          l_cout_pair = PipePair_default, l_cerr_pair = PipePair_default,
                          l_si = si\<rparr>
                 in case wire_cin os b l tr1 of
                      (Some e, l1, tr2) \<Rightarrow> (Inl e, unwind os l1 tr2)
                    | (None, l1, tr2) \<Rightarrow>
                        (case wire_cout os b l1 tr2 of
                           (Some e, l2, tr3) \<Rightarrow> (Inl e, unwind os l2 tr3)
                         | (None, l2, tr3) \<Rightarrow>
                             (case wire_cerr os b l2 tr3 of
                                (Some e, l3, tr4) \<Rightarrow> (Inl e, unwind os l3 tr4)
                              | (None, l3, tr4) \<Rightarrow> spawn os b program cmdline l3 tr4)))))"

section \<open>Constructing a process (Popen::init) and its stream pumps\<close>

text \<open>The lambda \<open>setPipeOption\<close> of \<open>Popen::init\<close>: the option and the handle the
  builder gets for one stream (\<open>pipe0\<close> is the handle the builder had).
  \<open>std::get<PipeHandle>\<close> throws when the variant holds another alternative.\<close>

definition setPipeOption :: "HANDLE \<Rightarrow> PipeVar \<Rightarrow> string \<Rightarrow> error + (HANDLE \<times> PipeOption)" where
  "setPipeOption pipe0 pipeVar errMsg =
     (let pipeOpt = get_pipe_option pipeVar
      in if pipeOpt = PO_specific then
           (case pipeVar of
              PV_handle h \<Rightarrow>
                if h = kBadPipeValue then Inl (invalid_argument errMsg) else Inr (h, pipeOpt)
            | _ \<Rightarrow> Inl bad_variant_access)
         else Inr (pipe0, pipeOpt))"

text \<open>\<open>setup_redirect_stream\<close>, both overloads. A pump is a detached thread, never
  joined: the model logs its start (its kind and its pipe handle) and not its transfers,
  which are not ordered with the caller's calls.\<close>

definition setup_redirect_stream_out :: "HANDLE \<Rightarrow> PipeVar \<Rightarrow> trace \<Rightarrow> error option \<times> trace" where
  "setup_redirect_stream_out inp outp tr =
     (if index outp = PVI_istream then
        (Some (domain_error ''expected something to output to''), tr)
      else
        (case index outp of
           PVI_ostream \<Rightarrow> (None, tr @ [Call_start_thread ''pipe to ostream'' inp])
         | PVI_file \<Rightarrow> (None, tr @ [Call_start_thread ''pipe to FILE'' inp])
         | _ \<Rightarrow> (None, tr)))"

definition setup_redirect_stream_in :: "PipeVar \<Rightarrow> HANDLE \<Rightarrow> trace \<Rightarrow> (error + bool) \<times> trace" where
  "setup_redirect_stream_in inp outp tr =
     (if index inp = PVI_ostream then
        (Inl (domain_error ''reading from std::ostream doesn't make sense''), tr)
      else
        (case index inp of
           PVI_string \<Rightarrow> (Inr True, tr @ [Call_start_thread ''string to pipe'' outp])
         | PVI_istream \<Rightarrow> (Inr True, tr @ [Call_start_thread ''istream to pipe'' outp])
         | PVI_file \<Rightarrow> (Inr True, tr @ [Call_start_thread ''FILE to pipe'' outp])
         | _ \<Rightarrow> (Inr False, tr)))"

text \<open>\<open>Popen::init\<close>, called by the constructors on a fresh object.\<close>

definition init :: "native \<Rightarrow> CommandLine \<Rightarrow> RunOptions \<Rightarrow> trace \<Rightarrow> (error + Popen) \<times> trace" where
  "init os cmd options tr =
     (let builder = ProcessBuilder_default in
      case setPipeOption (cin_pipe builder) (opt_cin options) ''Bad pipe value for cin'' of
        Inl e \<Rightarrow> (Inl e, tr)
      | Inr (h0, o0) \<Rightarrow>
     (case setPipeOption (cout_pipe builder) (opt_cout options) ''Bad pipe value for cout'' of
        Inl e \<Rightarrow> (Inl e, tr)
      | Inr (h1, o1) \<Rightarrow>
     (case setPipeOption (cerr_pipe builder) (opt_cerr options) ''Bad pipe value for cerr'' of
        Inl e \<Rightarrow> (Inl e, tr)
      | Inr (h2, o2) \<Rightarrow>
         (let builder1 = builder\<lparr>cin_pipe := h0, cin_option := o0, cout_pipe := h1,
                                 cout_option := o1, cerr_pipe := h2, cerr_option := o2,
                                 new_process_group := opt_new_process_group options,
                                 env := opt_env options, cwd := opt_cwd options\<rparr>
          in case run_command os builder1 cmd tr of
               (Inl e, tr1) \<Rightarrow> (Inl e, tr1)
             | (Inr process, tr1) \<Rightarrow>
                 (case Popen_move_assign os Popen_default process tr1 of
                    (Inl e, tr2) \<Rightarrow> (Inl e, tr2)
                  | (Inr this, tr2) \<Rightarrow>
                      (case setup_redirect_stream_in (opt_cin options) (cin this) tr2 of
                         (Inl e, tr3) \<Rightarrow> (Inl e, tr3)
                       | (Inr fed, tr3) \<Rightarrow>
                           (let this1 = (if fed then this\<lparr>cin := kBadPipeValue\<rparr> else this)
                            in case setup_redirect_stream_out (cout this1) (opt_cout options) tr3 of
                                 (Some e, tr4) \<Rightarrow> (Inl e, tr4)
                               | (None, tr4) \<Rightarrow>
                                   (case setup_redirect_stream_out (cerr this1)
                                           (opt_cerr options) tr4 of
                                      (Some e, tr5) \<Rightarrow> (Inl e, tr5)
                                    | (None, tr5) \<Rightarrow> (Inr this1, tr5)))))))))"

section \<open>The run facade (builder.cpp)\<close>

text \<open>
  Both \<open>run\<close> functions read the captured streams on two threads and join them before
  they wait. The two readers touch different handles and different fields; the model
  runs the reader of \<open>cout\<close>, then the reader of \<open>cerr\<close>. \<open>None\<close>: a reader never
  reaches the end of its pipe, so \<open>run\<close> never returns.
\<close>

definition pump :: "native \<Rightarrow> HANDLE \<Rightarrow> trace \<Rightarrow> (string \<times> trace) option" where
  "pump os h tr =
     (case pipe_read_all os h tr of
        None \<Rightarrow> None
      | Some (s, tr1) \<Rightarrow> Some (s, snd (pipe_close os h tr1)))"

definition pump_both :: "native \<Rightarrow> Popen \<Rightarrow> trace \<Rightarrow> (string \<times> string \<times> Popen \<times> trace) option" where
  "pump_both os popen tr =
     (case (if cout popen \<noteq> kBadPipeValue then pump os (cout popen) tr else Some ([], tr)) of
        None \<Rightarrow> None
      | Some (out, tr1) \<Rightarrow>
          (case (if cerr popen \<noteq> kBadPipeValue then pump os (cerr popen) tr1
                 else Some ([], tr1)) of
             None \<Rightarrow> None
           | Some (err, tr2) \<Rightarrow>
               Some (out, err, popen\<lparr>cout := kBadPipeValue, cerr := kBadPipeValue\<rparr>, tr2)))"

text \<open>\<open>run(Popen& popen, bool check)\<close>.\<close>

definition run_popen ::
  "native \<Rightarrow> Popen \<Rightarrow> bool \<Rightarrow> trace \<Rightarrow> ((error + CompletedProcess) \<times> Popen \<times> trace) option" where
  "run_popen os popen check tr =
     (case pump_both os popen tr of
        None \<Rightarrow> None
      | Some (out, err, popen1, tr1) \<Rightarrow>
          Some (case wait os (- 1) popen1 tr1 of
                  (Inl e, popen2, tr2) \<Rightarrow> (Inl e, popen2, tr2)
                | (Inr c, popen2, tr2) \<Rightarrow>
                    (case args popen2 of
                       [] \<Rightarrow> (Inl (undefined_behavior ''args.begin() + 1 of an empty command line''),
                              popen2, tr2)
                     | a0 # as \<Rightarrow>
                         (let completed = \<lparr>cp_args = as, cp_returncode = returncode popen2,
                                           cp_cout = out, cp_cerr = err\<rparr>
                          in if check then
                               (Inl (CalledProcessError (''failed to execute '' @ a0)
                                       (args popen2) (cp_returncode completed)
                                       (cp_cout completed) (cp_cerr completed)),
                                popen2, tr2)
                             else (Inr completed, popen2, tr2)))))"

text \<open>\<open>run(CommandLine command, const RunOptions& options)\<close>. The local \<open>popen\<close> is
  destroyed on every way out after its construction.\<close>

definition run_wait ::
  "native \<Rightarrow> CommandLine \<Rightarrow> RunOptions \<Rightarrow> string \<Rightarrow> string \<Rightarrow> Popen \<Rightarrow> trace
     \<Rightarrow> (error + CompletedProcess) \<times> Popen \<times> trace" where
  "run_wait os cmd options out err popen tr =
     (case wait os (opt_timeout options) popen tr of
        (Inl (TimeoutExpired_what m), popen1, tr1) \<Rightarrow>
          (let (sent, tr2) = send_signal os PSIGTERM popen1 tr1
           in case wait os (- 1) popen1 tr2 of
                (Inl e, popen2, tr3) \<Rightarrow> (Inl e, popen2, tr3)
              | (Inr c, popen2, tr3) \<Rightarrow>
                  (Inl (TimeoutExpired ''subprocess::run timeout reached'' cmd
                          (opt_timeout options) out err), popen2, tr3))
      | (Inl e, popen1, tr1) \<Rightarrow> (Inl e, popen1, tr1)
      | (Inr c, popen1, tr1) \<Rightarrow>
          (let completed = \<lparr>cp_args = cmd, cp_returncode = returncode popen1,
                            cp_cout = out, cp_cerr = err\<rparr>
           in if opt_raise_on_nonzero options \<and> cp_returncode completed \<noteq> 0 then
                (case cmd of
                   [] \<Rightarrow> (Inl (undefined_behavior ''command[0] of an empty command line''),
                          popen1, tr1)
                 | c0 # cs \<Rightarrow>
                     (Inl (CalledProcessError (''failed to execute '' @ c0) cmd
                             (cp_returncode completed) (cp_cout completed)
                             (cp_cerr completed)),
                      popen1, tr1))
              else (Inr completed, popen1, tr1)))"

definition run :: "native \<Rightarrow> CommandLine \<Rightarrow> RunOptions \<Rightarrow> trace \<Rightarrow> ((error + CompletedProcess) \<times> trace) option" where
  "run os cmd options tr =
     (case init os cmd options tr of
        (Inl e, tr1) \<Rightarrow> Some (Inl e, tr1)
      | (Inr popen, tr1) \<Rightarrow>
          (case pump_both os popen tr1 of
             None \<Rightarrow> None
           | Some (out, err, popen1, tr2) \<Rightarrow>
               (case run_wait os cmd options out err popen1 tr2 of
                  (res, popen2, tr3) \<Rightarrow>
                    (case Popen_destructor os popen2 tr3 of
                       (Some e, tr4) \<Rightarrow> Some (Inl e, tr4)
                     | (None, tr4) \<Rightarrow> Some (res, tr4)))))"

section \<open>A simulated platform\<close>

text \<open>
  A concrete \<open>native\<close>, to run the model on. A scenario fixes what the world holds: the
  programs the resolver finds, one child (how long it runs by itself, its exit status,
  whether a console break ends it), for each pipe the parent reads, the messages
  the peer writes before it closes its end, the (process id, parent process id) entries
  a process snapshot lists, and the milliseconds of a timeout.

  The state of the child and of each pipe is replayed from the trace. The answers follow
  the platforms' documentation:
  \<^item> \<open>ReadFile\<close> on a pipe returns one pending message (a zero-byte write of the peer is
    a zero-byte read); when nothing is pending and the peer has closed, it fails (broken
    pipe);
  \<^item> \<open>read\<close> on a pipe returns pending bytes; when the peer has closed and nothing is
    pending it returns 0;
  \<^item> \<open>TerminateProcess\<close> sets the exit status of a running process to its argument;
    \<open>GetExitCodeProcess\<close> reports the exit status;
  \<^item> a process snapshot has the handle 60; no other process can be opened.
  Time passes in \<open>WaitForSingleObject\<close> only.
\<close>

record scenario =
  sc_programs :: "(string \<times> string) list"
  sc_lifetime :: nat
  sc_exit :: DWORD
  sc_break_exits :: bool
  sc_pipes :: "(HANDLE \<times> string list) list"
  sc_fds :: "(int \<times> string list) list"
  sc_processes :: "(DWORD \<times> DWORD) list"
  sc_ms :: "real \<Rightarrow> DWORD"

definition sim_process_info :: PROCESS_INFORMATION where
  "sim_process_info = \<lparr>hProcess = 50, hThread = 51, dwProcessId = 1234, dwThreadId = 1\<rparr>"

fun child_step :: "scenario \<Rightarrow> nat \<times> DWORD option \<Rightarrow> call \<Rightarrow> nat \<times> DWORD option" where
  "child_step sc (t, Some c) x = (t, Some c)"
| "child_step sc (t, None) (Call_WaitForSingleObject h ms) =
     (if h \<noteq> hProcess sim_process_info then (t, None)
      else if ms = INFINITE \<or> sc_lifetime sc \<le> t + unat ms then (t, Some (sc_exit sc))
      else (t + unat ms, None))"
| "child_step sc (t, None) (Call_TerminateProcess h c) =
     (if h = hProcess sim_process_info then (t, Some c) else (t, None))"
| "child_step sc (t, None) (Call_GenerateConsoleCtrlEvent ev g) =
     (if ev = CTRL_BREAK_EVENT \<and> g = dwProcessId sim_process_info \<and> sc_break_exits sc
      then (t, Some 0xC000013A) else (t, None))"
| "child_step sc (t, None) x = (t, None)"

definition child_state :: "scenario \<Rightarrow> trace \<Rightarrow> nat \<times> DWORD option" where
  "child_state sc tr = foldl (child_step sc) (0, None) tr"

fun win_pipe_step :: "HANDLE \<Rightarrow> string list \<Rightarrow> call \<Rightarrow> string list" where
  "win_pipe_step h (m # ms) (Call_ReadFile h' n) =
     (if h' \<noteq> h then m # ms else if length m \<le> unat n then ms else drop (unat n) m # ms)"
| "win_pipe_step h ms x = ms"

definition win_pipe_state :: "scenario \<Rightarrow> HANDLE \<Rightarrow> trace \<Rightarrow> string list option" where
  "win_pipe_state sc h tr =
     (case map_of (sc_pipes sc) h of
        None \<Rightarrow> None
      | Some ms \<Rightarrow> Some (foldl (win_pipe_step h) ms tr))"

fun posix_pipe_step :: "int \<Rightarrow> string \<Rightarrow> call \<Rightarrow> string" where
  "posix_pipe_step h bs (Call_posix_read h' n) = (if h' \<noteq> h then bs else drop n bs)"
| "posix_pipe_step h bs x = bs"

definition posix_pipe_state :: "scenario \<Rightarrow> int \<Rightarrow> trace \<Rightarrow> string option" where
  "posix_pipe_state sc h tr =
     (case map_of (sc_fds sc) h of
        None \<Rightarrow> None
      | Some ms \<Rightarrow> Some (foldl (posix_pipe_step h) (concat ms) tr))"

fun is_CreatePipe :: "call \<Rightarrow> bool" where
  "is_CreatePipe (Call_CreatePipe b) = True"
| "is_CreatePipe x = False"

definition sim :: "scenario \<Rightarrow> native" where
  "sim sc =
     \<lparr>WaitForSingleObject = (\<lambda>tr h ms.
        if h \<noteq> hProcess sim_process_info then WAIT_FAILED
        else (case snd (child_step sc (child_state sc tr) (Call_WaitForSingleObject h ms)) of
                Some c \<Rightarrow> WAIT_OBJECT_0
              | None \<Rightarrow> WAIT_TIMEOUT)),
      GetExitCodeProcess = (\<lambda>tr h.
        if h \<noteq> hProcess sim_process_info then (False, 0)
        else (case snd (child_state sc tr) of Some c \<Rightarrow> (True, c) | None \<Rightarrow> (True, 259))),
      GetLastError = (\<lambda>tr. 0),
      FormatMessage = (\<lambda>tr dw. ''The operation completed successfully.''),
      process_snapshot = (\<lambda>tr. Some (60, sc_processes sc)),
      OpenProcess = (\<lambda>tr i. 0),
      TerminateProcess = (\<lambda>tr h c.
        h = hProcess sim_process_info \<and> snd (child_state sc tr) = None),
      CloseHandle = (\<lambda>tr h. h \<noteq> 0),
      GenerateConsoleCtrlEvent = (\<lambda>tr ev g. True),
      ReadFile = (\<lambda>tr h n.
        case win_pipe_state sc h tr of
          None \<Rightarrow> (False, [])
        | Some [] \<Rightarrow> (False, [])
        | Some (m # ms) \<Rightarrow> (True, take (unat n) m)),
      CreatePipe = (\<lambda>tr inheritable.
        Some (100 + 2 * length (filter is_CreatePipe tr),
              101 + 2 * length (filter is_CreatePipe tr))),
      SetHandleInformation = (\<lambda>tr h mask flags. h \<noteq> 0),
      GetStdHandle = (\<lambda>tr n.
        if n = STD_INPUT_HANDLE then 1 else if n = STD_OUTPUT_HANDLE then 2 else 3),
      CreateProcess = (\<lambda>tr a. Some sim_process_info),
      find_program = (\<lambda>tr name.
        case map_of (sc_programs sc) name of None \<Rightarrow> [] | Some path \<Rightarrow> path),
      escape_shell_arg = (\<lambda>arg. arg),
      create_env_block = (\<lambda>env. concat (map (\<lambda>(k, v). k @ ''='' @ v @ [CHR 0x00]) env)),
      posix_read = (\<lambda>tr h n.
        case posix_pipe_state sc h tr of
          None \<Rightarrow> (- 1, [])
        | Some bs \<Rightarrow> (int (length (take n bs)), take n bs)),
      posix_close = (\<lambda>tr h. if map_of (sc_fds sc) h = None then - 1 else 0),
      ms_of_seconds = sc_ms sc\<rparr>"

text \<open>A scenario to run the model on: a child that runs for three seconds and exits
  with status 0, that a console break ends, whose standard output (the pipe the
  simulated platform creates first, read through handle 100) carries two messages;
  a second pipe (handle 102, descriptor 6) whose peer first writes nothing, then
  \<open>late\<close>; and a third (handle 104, descriptor 5) whose peer has closed without
  writing. A snapshot lists two processes, neither a child of the child. The
  milliseconds of a timeout are computed exactly, which is what the double arithmetic
  of the code gives for the whole seconds the scenario is run with.\<close>

definition demo :: scenario where
  "demo =
     \<lparr>sc_programs = [(''sleep'', ''C:/tools/sleep.exe''), (''echo'', ''C:/tools/echo.exe'')],
      sc_lifetime = 3000, sc_exit = 0, sc_break_exits = True,
      sc_pipes = [(100, [''hello '', ''world'']), (102, [[], ''late'']), (104, [])],
      sc_fds = [(5, []), (6, [[], ''late''])],
      sc_processes = [(4, 0), (1234, 900)],
      sc_ms = (\<lambda>timeout. word_of_int \<lfloor>timeout * 1000\<rfloor>)\<rparr>"

text \<open>The process the simulated platform creates, as \<open>run_command\<close> returns it when
  no stream is redirected.\<close>

definition demo_popen :: Popen where
  "demo_popen =
     Popen_default\<lparr>pid := 1234, args := [''sleep'', ''3''], process_info := sim_process_info\<rparr>"

text \<open>The calls that deliver a signal or end a process.\<close>

fun delivers :: "call \<Rightarrow> bool" where
  "delivers (Call_TerminateProcess h c) = True"
| "delivers (Call_GenerateConsoleCtrlEvent ev g) = True"
| "delivers (Call_OpenProcess i) = True"
| "delivers x = False"



text \<open>The calls of \<open>run({"echo", "hello", "world"}, {.cout = PipeOption::pipe})\<close> on
  the simulated platform.\<close>

definition echo_trace :: trace where
  "echo_trace =
     [Call_find_program ''echo'', Call_GetStdHandle STD_INPUT_HANDLE,
      Call_GetStdHandle STD_OUTPUT_HANDLE, Call_GetStdHandle STD_ERROR_HANDLE,
      Call_CreatePipe True, Call_SetHandleInformation 100 HANDLE_FLAG_INHERIT 0,
      Call_CreateProcess
        \<lparr>lpApplicationName = ''C:/tools/echo.exe'', lpCommandLine = ''echo hello world'',
         dwCreationFlags = CREATE_UNICODE_ENVIRONMENT, lpEnvironment = None,
         lpCurrentDirectory = None,
         lpStartupInfo = \<lparr>hStdInput = 1, hStdOutput = 101, hStdError = 3\<rparr>\<rparr>,
      Call_CloseHandle 101, Call_ReadFile 100 2048, Call_ReadFile 100 2048,
      Call_ReadFile 100 2048, Call_CloseHandle 100,
      Call_WaitForSingleObject 50 INFINITE, Call_GetExitCodeProcess 50,
      Call_CloseHandle 50, Call_CloseHandle 51]"



definition echo_popen :: Popen where
  "echo_popen =
     Popen_default\<lparr>cout := 100, pid := 1234, args := [''echo'', ''hello'', ''world''],
                    process_info := sim_process_info\<rparr>"

text \<open>The calls of \<open>send_signal(PSIGKILL)\<close> for the running child of a scenario: the
  snapshot is taken, enumerated and closed, the child is ended with status 137, and
  each process of the snapshot whose parent is the child is opened, which the simulated
  platform refuses.\<close>

definition sim_kill_calls :: "scenario \<Rightarrow> trace" where
  "sim_kill_calls sc =
     [Call_CreateToolhelp32Snapshot, Call_Process32First 60]
     @ replicate (length (sc_processes sc)) (Call_Process32Next 60)
     @ [Call_CloseHandle 60, Call_TerminateProcess 50 137]
     @ map Call_OpenProcess
         (map fst (filter (\<lambda>pe32. snd pe32 = dwProcessId sim_process_info) (sc_processes sc)))"


section \<open>Facts\<close>

text \<open>The definitions of the model and of the simulated platform, for evaluation.\<close>

lemmas model_defs =
  wait_def poll_def wait_result_def send_signal_def terminate_def kill_def LastErrorString_def
  GetChildProcessIDs_def TerminateProcessByID_def timeout_ms_def
  pipe_close_def pipe_read_def pipe_read_all_def pipe_create_def pipe_set_inheritable_def
  PipePair_close_def close_input_def close_output_def disown_def PipePair_bool_def
  PipePair_default_def Popen_close_def Popen_destructor_def Popen_move_assign_def
  Popen_default_def PROCESS_INFORMATION_zero_def get_pipe_option_def RunOptions_default_def
  ProcessBuilder_default_def disable_inherit_def windows_args_def unwind_def wire_cin_def
  wire_cout_def wire_cerr_def spawn_def run_command_def setPipeOption_def
  setup_redirect_stream_out_def setup_redirect_stream_in_def init_def pump_def pump_both_def
  run_popen_def run_wait_def run_def kBadPipeValue_def kBadReturnCode_def
  WAIT_OBJECT_0_def WAIT_ABANDONED_def WAIT_TIMEOUT_def WAIT_FAILED_def INFINITE_def
  CTRL_C_EVENT_def CTRL_BREAK_EVENT_def HANDLE_FLAG_INHERIT_def STD_INPUT_HANDLE_def
  STD_OUTPUT_HANDLE_def STD_ERROR_HANDLE_def CREATE_UNICODE_ENVIRONMENT_def
  CREATE_NEW_PROCESS_GROUP_def PSIGKILL_def PSIGINT_def PSIGTERM_def

lemmas sim_defs =
  sim_def child_state_def win_pipe_state_def posix_pipe_state_def sim_process_info_def
  demo_def demo_popen_def

subsection \<open>The cached exit status\<close>

text \<open>An exit status read from the platform is an unsigned 32-bit value widened to 64
  bits, so it is never the sentinel \<open>kBadReturnCode\<close> and never negative.\<close>

lemma ucast_not_bad: "(ucast (e::32 word) :: 64 word) \<noteq> kBadReturnCode"
proof
  assume a: "(ucast e :: 64 word) = kBadReturnCode"
  have "uint (ucast e :: 64 word) = uint e"
    by (simp add: uint_up_ucast is_up)
  moreover have "uint e < 2 ^ 32"
    using uint_lt2p [of e] by simp
  moreover have "uint (kBadReturnCode) = 2 ^ 64 - 1000"
    by (simp add: kBadReturnCode_def)
  ultimately show False using a by simp
qed

lemma sint_ucast_exit: "sint (ucast (e::32 word) :: 64 word) = uint e"
proof -
  have b: "uint e < 2 ^ 63"
    using uint_lt2p [of e] by simp
  have "(0::int) \<le> uint e" by simp
  moreover have "- (2 ^ 63) \<le> (0::int)" by simp
  ultimately have a: "- (2 ^ 63) \<le> uint e" by (rule order_trans [rotated])
  have "sint (ucast e :: 64 word) = signed_take_bit 63 (uint e)"
    by (simp add: signed_ucast_eq)
  also have "\<dots> = uint e"
    using a b by (rule signed_take_bit_int_eq_self)
  finally show ?thesis .
qed

lemma wait_cached:
  "returncode p \<noteq> kBadReturnCode \<Longrightarrow> wait os t p tr = (Inr (returncode p), p, tr)"
  by (simp add: wait_def)

lemma poll_cached:
  "returncode p \<noteq> kBadReturnCode \<Longrightarrow> poll os p tr = (Inr True, p, tr)"
  by (simp add: poll_def)

lemma wait_result_Inr:
  assumes "wait_result os wr p tr = (Inr u, p', tr')"
  shows "\<exists>e::32 word. p' = p\<lparr>returncode := ucast e\<rparr>"
  using assms
  by (auto simp: wait_result_def Let_def split: if_splits prod.splits)

lemma wait_Inr:
  assumes "wait os t p tr = (Inr c, p', tr')"
  shows "returncode p' = c \<and> c \<noteq> kBadReturnCode \<and> p' = p\<lparr>returncode := c\<rparr>"
proof (cases "returncode p = kBadReturnCode")
  case False
  with assms show ?thesis by (auto simp: wait_def)
next
  case True
  with assms obtain wr tr1
    where w: "wait_result os wr p tr1 = (Inr (), p', tr')" and c: "c = returncode p'"
    by (auto simp: wait_def Let_def split: if_splits prod.splits sum.splits)
  from wait_result_Inr [OF w]
  obtain e :: "32 word" where "p' = p\<lparr>returncode := ucast e\<rparr>" ..
  with c show ?thesis by (simp add: ucast_not_bad)
qed

lemma poll_Inr_True:
  assumes "poll os p tr = (Inr True, p', tr')"
  shows "returncode p' \<noteq> kBadReturnCode"
proof (cases "returncode p = kBadReturnCode")
  case False
  with assms show ?thesis by (auto simp: poll_def)
next
  case True
  with assms obtain wr tr1 where w: "wait_result os wr p tr1 = (Inr (), p', tr')"
    by (auto simp: poll_def Let_def split: if_splits prod.splits sum.splits)
  from wait_result_Inr [OF w]
  obtain e :: "32 word" where "p' = p\<lparr>returncode := ucast e\<rparr>" ..
  then show ?thesis by (simp add: ucast_not_bad)
qed

text \<open>
  C4. Once the exit status of a process is cached, \<open>wait\<close> and \<open>poll\<close> are pure
  reads: they return the cached value, leave the process as it is and make no native
  call (the trace is unchanged, and the answer is the same on any platform \<open>os2\<close>).
  The status is cached by every \<open>wait\<close> that returns and every \<open>poll\<close> that returns
  true, so a second \<open>wait\<close>, with any timeout, returns the same exit code.
\<close>

theorem wait_poll_cached:
  "(returncode p \<noteq> kBadReturnCode \<longrightarrow>
      wait os t p tr = (Inr (returncode p), p, tr) \<and> poll os p tr = (Inr True, p, tr))
   \<and> (wait os t p tr = (Inr c, p', tr') \<longrightarrow>
        wait os2 t2 p' tr' = (Inr c, p', tr') \<and> poll os2 p' tr' = (Inr True, p', tr'))
   \<and> (poll os p tr = (Inr True, p', tr') \<longrightarrow>
        wait os2 t2 p' tr' = (Inr (returncode p'), p', tr') \<and>
        poll os2 p' tr' = (Inr True, p', tr'))"
  using wait_Inr [of os t p tr c p' tr'] poll_Inr_True [of os p tr p' tr']
  by (auto simp: wait_cached poll_cached)

theorem wait_poll_cached_witness:
  "wait (sim demo) (- 1) demo_popen [] =
     (Inr 0, demo_popen\<lparr>returncode := 0\<rparr>,
      [Call_WaitForSingleObject 50 INFINITE, Call_GetExitCodeProcess 50])
   \<and> wait (sim demo) 5 (demo_popen\<lparr>returncode := 0\<rparr>)
        [Call_WaitForSingleObject 50 INFINITE, Call_GetExitCodeProcess 50] =
     (Inr 0, demo_popen\<lparr>returncode := 0\<rparr>,
      [Call_WaitForSingleObject 50 INFINITE, Call_GetExitCodeProcess 50])
   \<and> poll (sim demo) (demo_popen\<lparr>returncode := 0\<rparr>)
        [Call_WaitForSingleObject 50 INFINITE, Call_GetExitCodeProcess 50] =
     (Inr True, demo_popen\<lparr>returncode := 0\<rparr>,
      [Call_WaitForSingleObject 50 INFINITE, Call_GetExitCodeProcess 50])"
proof -
  have first: "wait (sim demo) (- 1) demo_popen [] =
     (Inr 0, demo_popen\<lparr>returncode := 0\<rparr>,
      [Call_WaitForSingleObject 50 INFINITE, Call_GetExitCodeProcess 50])"
    by (simp add: model_defs sim_defs)
  show ?thesis
    using first
      wait_poll_cached [of demo_popen "sim demo" "- 1" "[]" 0 "demo_popen\<lparr>returncode := 0\<rparr>"
        "[Call_WaitForSingleObject 50 INFINITE, Call_GetExitCodeProcess 50]" "sim demo" 5]
    by simp
qed

subsection \<open>Signals to a process that has exited\<close>

text \<open>
  C8. When the exit status of a process is known, \<open>send_signal\<close> returns false for
  every signal, and so do \<open>terminate\<close> and \<open>kill\<close>. The process is not changed (the
  three are const members: the model gives them no process to return), and no call that
  delivers a signal or ends a process is made: the only calls are those that fetch the
  text of the last error, and the line \<open>error: ...\<close> written to the parent's standard
  output.
\<close>

theorem send_signal_known:
  assumes "returncode p \<noteq> kBadReturnCode"
  shows "send_signal os signum p tr =
           (False, tr @ [Call_GetLastError, Call_FormatMessage (GetLastError os tr),
                         Call_LocalFree,
                         Call_stdout_write (''error: '' @
                           FormatMessage os (tr @ [Call_GetLastError]) (GetLastError os tr) @
                           [CHR 0x0A])])
         \<and> terminate os p tr = send_signal os signum p tr
         \<and> kill os p tr = send_signal os signum p tr
         \<and> filter delivers (snd (send_signal os signum p tr)) = filter delivers tr"
  using assms by (simp add: send_signal_def terminate_def kill_def LastErrorString_def Let_def)

theorem send_signal_known_witness:
  "send_signal (sim demo) PSIGKILL (demo_popen\<lparr>returncode := 0\<rparr>) [] =
     (False, [Call_GetLastError, Call_FormatMessage 0, Call_LocalFree,
              Call_stdout_write (''error: The operation completed successfully.'' @ [CHR 0x0A])])
   \<and> kill (sim demo) (demo_popen\<lparr>returncode := 0\<rparr>) [] =
       send_signal (sim demo) PSIGKILL (demo_popen\<lparr>returncode := 0\<rparr>) []
   \<and> filter delivers
        (snd (send_signal (sim demo) PSIGKILL (demo_popen\<lparr>returncode := 0\<rparr>) [])) = []"
  using send_signal_known [of "demo_popen\<lparr>returncode := 0\<rparr>" "sim demo" PSIGKILL "[]"]
  by (simp add: sim_defs model_defs)

subsection \<open>The run overload for a spawned process\<close>

text \<open>With \<open>check\<close> set, \<open>run(popen, check)\<close> never returns a snapshot: the throw is
  not guarded by the exit code.\<close>

lemma run_popen_check_never_returns:
  "run_popen os popen True tr \<noteq> Some (Inr completed, popen', tr')"
  by (auto simp: run_popen_def Let_def split: option.splits prod.splits sum.splits list.splits)

text \<open>
  C1. The claim: with \<open>check\<close> set, \<open>run(popen, check)\<close> raises the called-process
  error if and only if the exit code is nonzero, and returns the snapshot when it is
  zero. The code raises whatever the exit code is. Here the child of the scenario exits
  with status 0, nothing is captured, and the overload raises \<open>CalledProcessError\<close>
  carrying exit code 0.
\<close>

theorem run_popen_check_zero_raises:
  "run_popen (sim demo) demo_popen True [] =
     Some (Inl (CalledProcessError ''failed to execute sleep'' [''sleep'', ''3''] 0 [] []),
           demo_popen\<lparr>returncode := 0\<rparr>,
           [Call_WaitForSingleObject 50 INFINITE, Call_GetExitCodeProcess 50])"
  by (simp add: model_defs sim_defs)

subsection \<open>Spawning\<close>

text \<open>
  C9. When the resolver finds no program for element 0 of the command line,
  \<open>run_command\<close> throws \<open>CommandNotFoundError\<close> at once: the call of the resolver is the
  only call made, so no pipe is created, no handle is touched and no process creation
  is attempted.
\<close>

theorem run_command_not_found:
  assumes "find_program os tr c0 = []"
  shows "run_command os b (c0 # cs) tr =
           (Inl (CommandNotFoundError
                   (''Command '' @ [CHR 0x22] @ c0 @ [CHR 0x22] @ '' not found.'')),
            tr @ [Call_find_program c0])"
  using assms by (simp add: run_command_def)

theorem run_command_not_found_witness:
  "find_program (sim demo) [] ''yay-322'' = []
   \<and> run_command (sim demo) ProcessBuilder_default [''yay-322''] [] =
       (Inl (CommandNotFoundError
               (''Command '' @ [CHR 0x22] @ ''yay-322'' @ [CHR 0x22] @ '' not found.'')),
        [Call_find_program ''yay-322''])"
proof -
  have h: "find_program (sim demo) [] ''yay-322'' = []"
    by (simp add: sim_defs)
  show ?thesis
    using h run_command_not_found [OF h, of ProcessBuilder_default "[]"] by simp
qed

subsection \<open>The bad-handle check of the constructor\<close>

lemma setPipeOption_handle:
  "setPipeOption h0 (PV_handle h) m =
     (if h = kBadPipeValue then Inl (invalid_argument m) else Inr (h, PO_specific))"
  by (simp add: setPipeOption_def get_pipe_option_def)

text \<open>The three outcomes of \<open>setPipeOption\<close>: the bare option \<open>specific\<close> (no handle in
  the variant), the bad handle, and everything else.\<close>

lemma setPipeOption_cases:
  "setPipeOption h0 v m = Inl bad_variant_access \<and> v = PV_option PO_specific
   \<or> setPipeOption h0 v m = Inl (invalid_argument m) \<and> v = PV_handle kBadPipeValue
   \<or> (\<exists>h. setPipeOption h0 v m = Inr (h, get_pipe_option v))
       \<and> v \<noteq> PV_option PO_specific \<and> v \<noteq> PV_handle kBadPipeValue"
  by (cases v) (auto simp: setPipeOption_def get_pipe_option_def Let_def split: PipeOption.splits)

lemma init_cin_err:
  "setPipeOption kBadPipeValue (opt_cin options) ''Bad pipe value for cin'' = Inl e
   \<Longrightarrow> init os cmd options tr = (Inl e, tr)"
  by (simp add: init_def ProcessBuilder_default_def)

lemma init_cout_err:
  "setPipeOption kBadPipeValue (opt_cin options) ''Bad pipe value for cin'' = Inr x
   \<Longrightarrow> setPipeOption kBadPipeValue (opt_cout options) ''Bad pipe value for cout'' = Inl e
   \<Longrightarrow> init os cmd options tr = (Inl e, tr)"
  by (cases x) (simp add: init_def ProcessBuilder_default_def)

lemma init_cerr_err:
  "setPipeOption kBadPipeValue (opt_cin options) ''Bad pipe value for cin'' = Inr x
   \<Longrightarrow> setPipeOption kBadPipeValue (opt_cout options) ''Bad pipe value for cout'' = Inr y
   \<Longrightarrow> setPipeOption kBadPipeValue (opt_cerr options) ''Bad pipe value for cerr'' = Inl e
   \<Longrightarrow> init os cmd options tr = (Inl e, tr)"
  by (cases x, cases y) (simp add: init_def ProcessBuilder_default_def)

text \<open>
  C10, as claimed, fails: the streams are checked in the order \<open>cin\<close>, \<open>cout\<close>,
  \<open>cerr\<close>, and a stream given the bare option value \<open>specific\<close> makes
  \<open>std::get<PipeHandle>\<close> throw \<open>std::bad_variant_access\<close> before a later bad handle
  is looked at. Here \<open>cin\<close> is the bare option and \<open>cout\<close> the bad handle.
\<close>

theorem init_bad_handle_counterexample:
  "init (sim demo) [''echo'', ''hello'']
     (RunOptions_default\<lparr>opt_cin := PV_option PO_specific,
                          opt_cout := PV_handle kBadPipeValue\<rparr>) [] =
     (Inl bad_variant_access, [])"
  by (simp add: init_def setPipeOption_def get_pipe_option_def RunOptions_default_def
      ProcessBuilder_default_def)

text \<open>
  C10, amended. \<open>Popen::init\<close> looks at the three streams in the order \<open>cin\<close>, \<open>cout\<close>,
  \<open>cerr\<close>, and the first stream that is either an explicit handle equal to the bad-pipe
  value or the bare option value \<open>specific\<close> decides: for the bad handle it throws
  \<open>std::invalid_argument\<close> with the message of that stream, for the bare option
  \<open>std::bad_variant_access\<close>, whatever the later streams hold. Either way no native call
  has been made (the trace is unchanged: nothing is resolved, created or spawned). An
  explicit handle other than the bad value passes the check unchanged, with the option
  \<open>specific\<close>.
\<close>

theorem init_bad_handle:
  "(opt_cin options = PV_handle kBadPipeValue \<longrightarrow>
      init os cmd options tr = (Inl (invalid_argument ''Bad pipe value for cin''), tr))
   \<and> (opt_cin options \<notin> {PV_handle kBadPipeValue, PV_option PO_specific}
        \<and> opt_cout options = PV_handle kBadPipeValue \<longrightarrow>
      init os cmd options tr = (Inl (invalid_argument ''Bad pipe value for cout''), tr))
   \<and> (opt_cin options \<notin> {PV_handle kBadPipeValue, PV_option PO_specific}
        \<and> opt_cout options \<notin> {PV_handle kBadPipeValue, PV_option PO_specific}
        \<and> opt_cerr options = PV_handle kBadPipeValue \<longrightarrow>
      init os cmd options tr = (Inl (invalid_argument ''Bad pipe value for cerr''), tr))
   \<and> (opt_cin options = PV_option PO_specific \<longrightarrow>
      init os cmd options tr = (Inl bad_variant_access, tr))
   \<and> (opt_cin options \<notin> {PV_handle kBadPipeValue, PV_option PO_specific}
        \<and> opt_cout options = PV_option PO_specific \<longrightarrow>
      init os cmd options tr = (Inl bad_variant_access, tr))
   \<and> (opt_cin options \<notin> {PV_handle kBadPipeValue, PV_option PO_specific}
        \<and> opt_cout options \<notin> {PV_handle kBadPipeValue, PV_option PO_specific}
        \<and> opt_cerr options = PV_option PO_specific \<longrightarrow>
      init os cmd options tr = (Inl bad_variant_access, tr))
   \<and> (h \<noteq> kBadPipeValue \<longrightarrow> setPipeOption h0 (PV_handle h) m = Inr (h, PO_specific))"
proof -
  note c0 = setPipeOption_cases [of kBadPipeValue "opt_cin options" "''Bad pipe value for cin''"]
  note c1 = setPipeOption_cases [of kBadPipeValue "opt_cout options" "''Bad pipe value for cout''"]
  note c2 = setPipeOption_cases [of kBadPipeValue "opt_cerr options" "''Bad pipe value for cerr''"]
  have cin_bad: "init os cmd options tr = (Inl (invalid_argument ''Bad pipe value for cin''), tr)"
    if "opt_cin options = PV_handle kBadPipeValue"
  proof -
    from that c0 have "setPipeOption kBadPipeValue (opt_cin options) ''Bad pipe value for cin''
                         = Inl (invalid_argument ''Bad pipe value for cin'')" by auto
    then show ?thesis by (rule init_cin_err)
  qed
  have cin_bare: "init os cmd options tr = (Inl bad_variant_access, tr)"
    if "opt_cin options = PV_option PO_specific"
  proof -
    from that c0 have "setPipeOption kBadPipeValue (opt_cin options) ''Bad pipe value for cin''
                         = Inl bad_variant_access" by auto
    then show ?thesis by (rule init_cin_err)
  qed
  have cout_bad: "init os cmd options tr = (Inl (invalid_argument ''Bad pipe value for cout''), tr)"
    if "opt_cin options \<notin> {PV_handle kBadPipeValue, PV_option PO_specific}"
      and "opt_cout options = PV_handle kBadPipeValue"
  proof -
    from that(1) c0 obtain x where
      x: "setPipeOption kBadPipeValue (opt_cin options) ''Bad pipe value for cin'' = Inr x"
      by auto
    from that(2) c1 have "setPipeOption kBadPipeValue (opt_cout options) ''Bad pipe value for cout''
                            = Inl (invalid_argument ''Bad pipe value for cout'')" by auto
    with x show ?thesis by (rule init_cout_err)
  qed
  have cout_bare: "init os cmd options tr = (Inl bad_variant_access, tr)"
    if "opt_cin options \<notin> {PV_handle kBadPipeValue, PV_option PO_specific}"
      and "opt_cout options = PV_option PO_specific"
  proof -
    from that(1) c0 obtain x where
      x: "setPipeOption kBadPipeValue (opt_cin options) ''Bad pipe value for cin'' = Inr x"
      by auto
    from that(2) c1 have "setPipeOption kBadPipeValue (opt_cout options) ''Bad pipe value for cout''
                            = Inl bad_variant_access" by auto
    with x show ?thesis by (rule init_cout_err)
  qed
  have cerr_bad: "init os cmd options tr = (Inl (invalid_argument ''Bad pipe value for cerr''), tr)"
    if "opt_cin options \<notin> {PV_handle kBadPipeValue, PV_option PO_specific}"
      and "opt_cout options \<notin> {PV_handle kBadPipeValue, PV_option PO_specific}"
      and "opt_cerr options = PV_handle kBadPipeValue"
  proof -
    from that(1) c0 obtain x where
      x: "setPipeOption kBadPipeValue (opt_cin options) ''Bad pipe value for cin'' = Inr x"
      by auto
    from that(2) c1 obtain y where
      y: "setPipeOption kBadPipeValue (opt_cout options) ''Bad pipe value for cout'' = Inr y"
      by auto
    from that(3) c2 have "setPipeOption kBadPipeValue (opt_cerr options) ''Bad pipe value for cerr''
                            = Inl (invalid_argument ''Bad pipe value for cerr'')" by auto
    with x y show ?thesis by (rule init_cerr_err)
  qed
  have cerr_bare: "init os cmd options tr = (Inl bad_variant_access, tr)"
    if "opt_cin options \<notin> {PV_handle kBadPipeValue, PV_option PO_specific}"
      and "opt_cout options \<notin> {PV_handle kBadPipeValue, PV_option PO_specific}"
      and "opt_cerr options = PV_option PO_specific"
  proof -
    from that(1) c0 obtain x where
      x: "setPipeOption kBadPipeValue (opt_cin options) ''Bad pipe value for cin'' = Inr x"
      by auto
    from that(2) c1 obtain y where
      y: "setPipeOption kBadPipeValue (opt_cout options) ''Bad pipe value for cout'' = Inr y"
      by auto
    from that(3) c2 have "setPipeOption kBadPipeValue (opt_cerr options) ''Bad pipe value for cerr''
                            = Inl bad_variant_access" by auto
    with x y show ?thesis by (rule init_cerr_err)
  qed
  have ok: "h \<noteq> kBadPipeValue \<longrightarrow> setPipeOption h0 (PV_handle h) m = Inr (h, PO_specific)"
    by (simp add: setPipeOption_handle)
  from cin_bad cin_bare cout_bad cout_bare cerr_bad cerr_bare ok show ?thesis
    by blast
qed

text \<open>Instances: two bad handles (\<open>cin\<close> decides); a bad handle at \<open>cin\<close> before the
  bare option at \<open>cout\<close>; a bad handle at \<open>cout\<close> after a valid handle at \<open>cin\<close>; a bad
  handle at \<open>cerr\<close> alone; the bare option at \<open>cin\<close>, at \<open>cout\<close> and at \<open>cerr\<close>, each
  before or without a bad handle; and a valid handle.\<close>

theorem init_bad_handle_witness:
  "init (sim demo) [''echo'', ''hello'']
     (RunOptions_default\<lparr>opt_cin := PV_handle kBadPipeValue,
                          opt_cout := PV_handle kBadPipeValue\<rparr>) [] =
     (Inl (invalid_argument ''Bad pipe value for cin''), [])
   \<and> init (sim demo) [''echo'', ''hello'']
     (RunOptions_default\<lparr>opt_cin := PV_handle kBadPipeValue,
                          opt_cout := PV_option PO_specific\<rparr>) [] =
     (Inl (invalid_argument ''Bad pipe value for cin''), [])
   \<and> init (sim demo) [''echo'', ''hello'']
     (RunOptions_default\<lparr>opt_cin := PV_handle 7, opt_cout := PV_handle kBadPipeValue,
                          opt_cerr := PV_handle kBadPipeValue\<rparr>) [] =
     (Inl (invalid_argument ''Bad pipe value for cout''), [])
   \<and> init (sim demo) [''echo'', ''hello'']
     (RunOptions_default\<lparr>opt_cerr := PV_handle kBadPipeValue\<rparr>) [] =
     (Inl (invalid_argument ''Bad pipe value for cerr''), [])
   \<and> init (sim demo) [''echo'', ''hello'']
     (RunOptions_default\<lparr>opt_cin := PV_option PO_specific,
                          opt_cerr := PV_handle kBadPipeValue\<rparr>) [] =
     (Inl bad_variant_access, [])
   \<and> init (sim demo) [''echo'', ''hello'']
     (RunOptions_default\<lparr>opt_cout := PV_option PO_specific,
                          opt_cerr := PV_handle kBadPipeValue\<rparr>) [] =
     (Inl bad_variant_access, [])
   \<and> init (sim demo) [''echo'', ''hello'']
     (RunOptions_default\<lparr>opt_cerr := PV_option PO_specific\<rparr>) [] =
     (Inl bad_variant_access, [])
   \<and> setPipeOption kBadPipeValue (PV_handle 7) ''Bad pipe value for cin'' = Inr (7, PO_specific)"
  using
    init_bad_handle [of "RunOptions_default\<lparr>opt_cin := PV_handle kBadPipeValue,
        opt_cout := PV_handle kBadPipeValue\<rparr>"
      "sim demo" "[''echo'', ''hello'']" "[]" 7 kBadPipeValue "''Bad pipe value for cin''"]
    init_bad_handle [of "RunOptions_default\<lparr>opt_cin := PV_handle kBadPipeValue,
        opt_cout := PV_option PO_specific\<rparr>"
      "sim demo" "[''echo'', ''hello'']" "[]" 7 kBadPipeValue "''Bad pipe value for cin''"]
    init_bad_handle [of "RunOptions_default\<lparr>opt_cin := PV_handle 7,
        opt_cout := PV_handle kBadPipeValue, opt_cerr := PV_handle kBadPipeValue\<rparr>"
      "sim demo" "[''echo'', ''hello'']" "[]" 7 kBadPipeValue "''Bad pipe value for cin''"]
    init_bad_handle [of "RunOptions_default\<lparr>opt_cerr := PV_handle kBadPipeValue\<rparr>"
      "sim demo" "[''echo'', ''hello'']" "[]" 7 kBadPipeValue "''Bad pipe value for cin''"]
    init_bad_handle [of "RunOptions_default\<lparr>opt_cin := PV_option PO_specific,
        opt_cerr := PV_handle kBadPipeValue\<rparr>"
      "sim demo" "[''echo'', ''hello'']" "[]" 7 kBadPipeValue "''Bad pipe value for cin''"]
    init_bad_handle [of "RunOptions_default\<lparr>opt_cout := PV_option PO_specific,
        opt_cerr := PV_handle kBadPipeValue\<rparr>"
      "sim demo" "[''echo'', ''hello'']" "[]" 7 kBadPipeValue "''Bad pipe value for cin''"]
    init_bad_handle [of "RunOptions_default\<lparr>opt_cerr := PV_option PO_specific\<rparr>"
      "sim demo" "[''echo'', ''hello'']" "[]" 7 kBadPipeValue "''Bad pipe value for cin''"]
  by (simp add: RunOptions_default_def kBadPipeValue_def)

subsection \<open>The command line of the snapshot\<close>

lemma pump_both_args:
  "pump_both os popen tr = Some (out, err, popen1, tr1) \<Longrightarrow>
     popen1 = popen\<lparr>cout := kBadPipeValue, cerr := kBadPipeValue\<rparr>"
  by (auto simp: pump_both_def split: option.splits if_splits)

lemma run_popen_Inr:
  assumes "run_popen os popen check tr = Some (Inr completed, popen', tr')"
  shows "args popen \<noteq> [] \<and> cp_args completed = tl (args popen) \<and> \<not> check
         \<and> cp_returncode completed = returncode popen'"
proof -
  from assms obtain out err popen1 tr1 where
    pb: "pump_both os popen tr = Some (out, err, popen1, tr1)"
    by (auto simp: run_popen_def split: option.splits)
  from pump_both_args [OF pb] have a1: "args popen1 = args popen" by simp
  obtain r popen2 tr2 where w: "wait os (- 1) popen1 tr1 = (r, popen2, tr2)"
    by (metis prod_cases3)
  show ?thesis
  proof (cases r)
    case (Inl e)
    with assms pb w show ?thesis by (simp add: run_popen_def)
  next
    case (Inr c)
    with w wait_Inr [of os "- 1" popen1 tr1 c popen2 tr2]
    have "popen2 = popen1\<lparr>returncode := c\<rparr>" by simp
    then have a2: "args popen2 = args popen1" by simp
    from assms pb w Inr a1 a2 show ?thesis
      by (auto simp: run_popen_def Let_def split: list.splits if_splits)
  qed
qed

lemma run_wait_Inr:
  assumes "run_wait os cmd options out err popen tr = (Inr completed, popen', tr')"
  shows "cp_args completed = cmd"
  using assms
  by (auto simp: run_wait_def Let_def
      split: prod.splits sum.splits error.splits if_splits list.splits)

lemma run_Inr:
  assumes "run os cmd options tr = Some (Inr completed, tr')"
  shows "cp_args completed = cmd"
proof -
  from assms obtain popen tr1 where i: "init os cmd options tr = (Inr popen, tr1)"
    by (auto simp: run_def split: prod.splits sum.splits)
  with assms obtain out err popen1 tr2 where
    pb: "pump_both os popen tr1 = Some (out, err, popen1, tr2)"
    by (auto simp: run_def split: option.splits)
  obtain res popen2 tr3
    where rw: "run_wait os cmd options out err popen1 tr2 = (res, popen2, tr3)"
    by (metis prod_cases3)
  with assms i pb have "res = Inr completed"
    by (auto simp: run_def split: prod.splits option.splits)
  with rw run_wait_Inr show ?thesis by blast
qed

lemma run_echo:
  "run (sim demo) [''echo'', ''hello'', ''world'']
     (RunOptions_default\<lparr>opt_cout := PV_option PO_pipe\<rparr>) [] =
   Some (Inr \<lparr>cp_args = [''echo'', ''hello'', ''world''], cp_returncode = 0,
              cp_cout = ''hello world'', cp_cerr = []\<rparr>, echo_trace)"
  by (simp add: model_defs sim_defs pipe_read_all_loop.simps Let_def echo_trace_def)

lemma run_popen_demo:
  "run_popen (sim demo) demo_popen False [] =
     Some (Inr \<lparr>cp_args = [''3''], cp_returncode = 0, cp_cout = [], cp_cerr = []\<rparr>,
           demo_popen\<lparr>returncode := 0\<rparr>,
           [Call_WaitForSingleObject 50 INFINITE, Call_GetExitCodeProcess 50])"
  by (simp add: model_defs sim_defs)

text \<open>
  C7, as claimed, fails on the path \<open>run(command, options)\<close>: the snapshot of
  \<open>run({"echo", "hello", "world"}, {.cout = PipeOption::pipe})\<close> holds the whole command,
  executable included, which is not the command without element 0.
\<close>

theorem snapshot_args_counterexample:
  "run (sim demo) [''echo'', ''hello'', ''world'']
     (RunOptions_default\<lparr>opt_cout := PV_option PO_pipe\<rparr>) [] =
   Some (Inr \<lparr>cp_args = [''echo'', ''hello'', ''world''], cp_returncode = 0,
              cp_cout = ''hello world'', cp_cerr = []\<rparr>, echo_trace)
   \<and> [''echo'', ''hello'', ''world''] \<noteq> tl [''echo'', ''hello'', ''world'']"
  using run_echo by simp

text \<open>
  C7, amended. Whenever \<open>run(command, options)\<close> returns a snapshot, its command-line
  field is the command used to spawn, executable included. Whenever the overload
  \<open>run(popen, check)\<close> returns a snapshot, the command line of the process is not empty
  and the field is that command line without element 0.
\<close>

theorem snapshot_args:
  "(run os cmd options tr = Some (Inr completed, tr') \<longrightarrow> cp_args completed = cmd)
   \<and> (run_popen os popen check tr2 = Some (Inr completed2, popen', tr2') \<longrightarrow>
        args popen \<noteq> [] \<and> cp_args completed2 = tl (args popen))"
  using run_Inr [of os cmd options tr completed tr']
    run_popen_Inr [of os popen check tr2 completed2 popen' tr2']
  by blast

theorem snapshot_args_witness:
  "cp_args \<lparr>cp_args = [''echo'', ''hello'', ''world''], cp_returncode = 0,
              cp_cout = ''hello world'', cp_cerr = []\<rparr> = [''echo'', ''hello'', ''world'']
   \<and> run (sim demo) [''echo'', ''hello'', ''world'']
     (RunOptions_default\<lparr>opt_cout := PV_option PO_pipe\<rparr>) [] =
   Some (Inr \<lparr>cp_args = [''echo'', ''hello'', ''world''], cp_returncode = 0,
              cp_cout = ''hello world'', cp_cerr = []\<rparr>, echo_trace)
   \<and> run_popen (sim demo) demo_popen False [] =
     Some (Inr \<lparr>cp_args = [''3''], cp_returncode = 0, cp_cout = [], cp_cerr = []\<rparr>,
           demo_popen\<lparr>returncode := 0\<rparr>,
           [Call_WaitForSingleObject 50 INFINITE, Call_GetExitCodeProcess 50])
   \<and> args demo_popen \<noteq> []
   \<and> cp_args \<lparr>cp_args = [''3''], cp_returncode = 0, cp_cout = [], cp_cerr = []\<rparr>
       = tl (args demo_popen)"
  using run_echo run_popen_demo
    snapshot_args [of "sim demo" "[''echo'', ''hello'', ''world'']"
      "RunOptions_default\<lparr>opt_cout := PV_option PO_pipe\<rparr>" "[]"
      "\<lparr>cp_args = [''echo'', ''hello'', ''world''], cp_returncode = 0,
              cp_cout = ''hello world'', cp_cerr = []\<rparr>" echo_trace
      demo_popen False "[]"
      "\<lparr>cp_args = [''3''], cp_returncode = 0, cp_cout = [], cp_cerr = []\<rparr>"
      "demo_popen\<lparr>returncode := 0\<rparr>"
      "[Call_WaitForSingleObject 50 INFINITE, Call_GetExitCodeProcess 50]"]
  by simp

subsection \<open>The timeout of the run facade\<close>










subsection \<open>The exit code after a kill\<close>

lemma wait_uncached_nonneg:
  assumes "returncode p = kBadReturnCode" and "wait os t p tr = (Inr c, p', tr')"
  shows "0 \<le> sint c \<and> sint c < 2 ^ 32"
proof -
  from assms obtain wr tr1
    where w: "wait_result os wr p tr1 = (Inr (), p', tr')" and c: "c = returncode p'"
    by (auto simp: wait_def Let_def split: if_splits prod.splits sum.splits)
  from wait_result_Inr [OF w]
  obtain e :: "32 word" where "p' = p\<lparr>returncode := ucast e\<rparr>" ..
  with c have "sint c = uint e" by (simp add: sint_ucast_exit)
  then show ?thesis using uint_lt2p [of e] by simp
qed

text \<open>On every platform \<open>send_signal(PSIGKILL)\<close> asks for the exit status 137.\<close>

lemma TerminateProcessByID_appends:
  "\<exists>rest. foldl (\<lambda>t i. TerminateProcessByID os i t) tr ids = tr @ rest"
proof (induction ids arbitrary: tr)
  case Nil
  show ?case by simp
next
  case (Cons i ids)
  have "\<exists>r1. TerminateProcessByID os i tr = tr @ r1"
    by (simp add: TerminateProcessByID_def Let_def)
  then obtain r1 where a: "TerminateProcessByID os i tr = tr @ r1" ..
  from Cons [of "tr @ r1"] obtain r2 where
    "foldl (\<lambda>t i. TerminateProcessByID os i t) (tr @ r1) ids = (tr @ r1) @ r2" ..
  with a show ?case by simp
qed

lemma send_signal_kill_137:
  assumes "returncode p = kBadReturnCode"
  shows "Call_TerminateProcess (hProcess (process_info p)) 137
           \<in> set (snd (send_signal os PSIGKILL p tr))"
proof -
  obtain ids tr2 where g: "GetChildProcessIDs os (dwProcessId (process_info p)) tr = (ids, tr2)"
    by (metis prod.exhaust)
  define tr3 where "tr3 = tr2 @ [Call_TerminateProcess (hProcess (process_info p)) 137]"
  from TerminateProcessByID_appends [of os tr3 ids] obtain rest where
    f: "foldl (\<lambda>t i. TerminateProcessByID os i t) tr3 ids = tr3 @ rest" ..
  have "\<exists>more. snd (send_signal os PSIGKILL p tr) = tr3 @ rest @ more"
    using assms g f
    by (simp add: send_signal_def LastErrorString_def Let_def tr3_def split: prod.splits)
  then show ?thesis by (auto simp: tr3_def)
qed

text \<open>The child of the simulated platform: once it has exited, no call changes its
  state; the calls that enumerate a snapshot do not touch it.\<close>

lemma child_exited_absorbs:
  "foldl (child_step sc) (t, Some c) xs = (t, Some c)"
  by (induction xs) simp_all

lemma child_state_exited:
  assumes "child_state sc tr = (t, Some c)"
  shows "child_state sc (tr @ xs) = (t, Some c)"
  using assms by (simp add: child_state_def child_exited_absorbs)

lemma child_ignores_Process32Next:
  "foldl (child_step sc) (t, None) (replicate k (Call_Process32Next h)) = (t, None)"
  by (induction k) simp_all

lemma sim_TerminateProcessByID:
  "foldl (\<lambda>t i. TerminateProcessByID (sim sc) i t) tr ids = tr @ map Call_OpenProcess ids"
  by (induction ids arbitrary: tr) (simp_all add: TerminateProcessByID_def sim_def)

lemma sim_kill:
  assumes run: "snd (child_state sc tr) = None"
    and q: "returncode q = kBadReturnCode" "process_info q = sim_process_info"
  shows "send_signal (sim sc) PSIGKILL q tr = (True, tr @ sim_kill_calls sc)"
proof -
  obtain t where st: "child_state sc tr = (t, None)"
    using run by (cases "child_state sc tr") simp
  define tr2 where
    "tr2 = tr @ [Call_CreateToolhelp32Snapshot, Call_Process32First 60]
              @ replicate (length (sc_processes sc)) (Call_Process32Next 60)
              @ [Call_CloseHandle 60]"
  have g: "GetChildProcessIDs (sim sc) 1234 tr =
             (map fst (filter (\<lambda>pe32. snd pe32 = 1234) (sc_processes sc)), tr2)"
    by (simp add: GetChildProcessIDs_def sim_def tr2_def)
  have "child_state sc tr2 = (t, None)"
    using st by (simp add: child_state_def tr2_def child_ignores_Process32Next)
  then have r: "TerminateProcess (sim sc) tr2 50 137"
    by (simp add: sim_def sim_process_info_def)
  have "send_signal (sim sc) PSIGKILL q tr =
          (True, tr2 @ Call_TerminateProcess 50 137
                   # map Call_OpenProcess
                       (map fst (filter (\<lambda>pe32. snd pe32 = 1234) (sc_processes sc))))"
    using q(1) r
    by (simp add: send_signal_def g PSIGKILL_def Let_def sim_TerminateProcessByID
        q(2) sim_process_info_def)
  then show ?thesis
    by (simp add: sim_kill_calls_def tr2_def sim_process_info_def)
qed

lemma sim_killed_state:
  assumes "snd (child_state sc tr) = None"
  shows "\<exists>n. child_state sc (tr @ sim_kill_calls sc @ xs) = (n, Some 137)"
proof -
  obtain t where st: "child_state sc tr = (t, None)"
    using assms by (cases "child_state sc tr") simp
  have "child_state sc
          (tr @ [Call_CreateToolhelp32Snapshot, Call_Process32First 60]
              @ replicate (length (sc_processes sc)) (Call_Process32Next 60)
              @ [Call_CloseHandle 60, Call_TerminateProcess 50 137]) = (t, Some 137)"
    using st by (simp add: child_state_def child_ignores_Process32Next sim_process_info_def)
  from child_state_exited [OF this] show ?thesis
    by (simp add: sim_kill_calls_def)
qed

lemma sim_wait_killed:
  assumes run: "snd (child_state sc tr) = None"
    and q: "returncode q = kBadReturnCode" "process_info q = sim_process_info"
  shows "wait (sim sc) t q (tr @ sim_kill_calls sc @ xs) =
           (Inr 137, q\<lparr>returncode := 137\<rparr>,
            tr @ sim_kill_calls sc @ xs
               @ [Call_WaitForSingleObject 50 (timeout_ms (sim sc) t), Call_GetExitCodeProcess 50])"
proof -
  define K where "K = tr @ sim_kill_calls sc @ xs"
  from sim_killed_state [OF run, of xs] obtain n where
    k: "child_state sc K = (n, Some 137)" by (auto simp: K_def)
  from child_state_exited [OF k]
  have k2: "child_state sc (K @ [Call_WaitForSingleObject 50 (timeout_ms (sim sc) t)])
              = (n, Some 137)" .
  have "wait (sim sc) t q K =
          (Inr 137, q\<lparr>returncode := 137\<rparr>,
           K @ [Call_WaitForSingleObject 50 (timeout_ms (sim sc) t), Call_GetExitCodeProcess 50])"
    using q k k2
    by (simp add: wait_def wait_result_def sim_def sim_process_info_def Let_def
        WAIT_OBJECT_0_def WAIT_ABANDONED_def WAIT_TIMEOUT_def WAIT_FAILED_def)
  then show ?thesis by (simp add: K_def)
qed

text \<open>The readers only add calls to the trace.\<close>

lemma pipe_read_trace:
  "snd (pipe_read os h sz tr) = tr @ [Call_ReadFile h (of_nat sz)]"
  by (simp add: pipe_read_def Let_def split: prod.splits)

lemma pipe_read_all_loop_appends:
  assumes "pipe_read_all_loop os h acc tr = Some y"
  shows "\<exists>rest. snd y = tr @ rest"
proof (rule pipe_read_all_loop.raw_induct
    [where P = "\<lambda>os h acc tr y. \<exists>rest. snd y = tr @ rest", OF _ assms])
  fix f os' h' acc' t y'
  assume IH: "\<And>o' g a t y. f o' g a t = Some y \<Longrightarrow> \<exists>rest. snd y = t @ rest"
    and step: "(case pipe_read os' h' 2048 t of
                  ((transfered, buf), tr1) \<Rightarrow>
                    if transfered > 0
                    then f os' h' (acc' @ take (nat transfered) buf) tr1
                    else Some (acc', tr1)) = Some y'"
  obtain n buf tr1 where r: "pipe_read os' h' 2048 t = ((n, buf), tr1)"
    by (metis prod.exhaust)
  with pipe_read_trace [of os' h' 2048 t] have t1: "tr1 = t @ [Call_ReadFile h' 2048]"
    by simp
  show "\<exists>rest. snd y' = t @ rest"
  proof (cases "n > 0")
    case True
    with step r have "f os' h' (acc' @ take (nat n) buf) tr1 = Some y'" by simp
    from IH [OF this] t1 show ?thesis by auto
  next
    case False
    with step r t1 show ?thesis by auto
  qed
qed

lemma pump_appends:
  assumes "pump os h tr = Some (s, tr')"
  shows "\<exists>rest. tr' = tr @ rest"
proof -
  from assms obtain tr1 where a: "pipe_read_all os h tr = Some (s, tr1)"
    and b: "tr' = tr1 @ [Call_CloseHandle h]"
    by (auto simp: pump_def pipe_close_def split: option.splits)
  have "\<exists>rest. tr1 = tr @ rest"
  proof (cases "h = kBadPipeValue")
    case True
    with a show ?thesis by (simp add: pipe_read_all_def)
  next
    case False
    with a have "pipe_read_all_loop os h [] tr = Some (s, tr1)" by (simp add: pipe_read_all_def)
    from pipe_read_all_loop_appends [OF this] show ?thesis by simp
  qed
  with b show ?thesis by auto
qed

lemma pump_both_appends:
  assumes "pump_both os popen tr = Some (out, err, popen1, tr')"
  shows "\<exists>rest. tr' = tr @ rest"
proof -
  from assms obtain tr1 where
    a: "(if cout popen \<noteq> kBadPipeValue then pump os (cout popen) tr else Some ([], tr))
          = Some (out, tr1)"
    and b: "(if cerr popen \<noteq> kBadPipeValue then pump os (cerr popen) tr1 else Some ([], tr1))
          = Some (err, tr')"
    by (auto simp: pump_both_def split: option.splits)
  from a have "\<exists>rest. tr1 = tr @ rest"
    by (cases "cout popen \<noteq> kBadPipeValue") (auto dest: pump_appends)
  moreover from b have "\<exists>rest. tr' = tr1 @ rest"
    by (cases "cerr popen \<noteq> kBadPipeValue") (auto dest: pump_appends)
  ultimately show ?thesis by auto
qed

lemma sim_run_popen_killed:
  assumes run: "snd (child_state sc tr) = None"
    and q: "returncode q = kBadReturnCode" "process_info q = sim_process_info"
    and a: "args q = a0 # as"
    and pb: "pump_both (sim sc) q (tr @ sim_kill_calls sc) = Some (out, err, q1, tr3)"
  shows "run_popen (sim sc) q False (tr @ sim_kill_calls sc) =
           Some (Inr \<lparr>cp_args = as, cp_returncode = 137, cp_cout = out, cp_cerr = err\<rparr>,
                 q1\<lparr>returncode := 137\<rparr>,
                 tr3 @ [Call_WaitForSingleObject 50 INFINITE, Call_GetExitCodeProcess 50])"
proof -
  from pump_both_args [OF pb] have q1: "q1 = q\<lparr>cout := kBadPipeValue, cerr := kBadPipeValue\<rparr>" .
  from pump_both_appends [OF pb] obtain xs where x: "tr3 = (tr @ sim_kill_calls sc) @ xs" ..
  have q1': "returncode q1 = kBadReturnCode" "process_info q1 = sim_process_info"
    using q q1 by simp_all
  from sim_wait_killed [OF run q1', of "- 1" xs] x
  have w: "wait (sim sc) (- 1) q1 tr3 =
             (Inr 137, q1\<lparr>returncode := 137\<rparr>,
              tr3 @ [Call_WaitForSingleObject 50 INFINITE, Call_GetExitCodeProcess 50])"
    by (simp add: timeout_ms_def)
  show ?thesis
    using pb w a q1 by (simp add: run_popen_def)
qed

text \<open>
  C2, as claimed, fails on the handle platform: a running child that
  \<open>send_signal(PSIGKILL)\<close> ends is reported by \<open>wait\<close>, and in the snapshot of
  \<open>run(popen, check)\<close>, with exit code 137, which is not minus the signal number 9.
\<close>

theorem kill_exit_code_counterexample:
  "send_signal (sim demo) PSIGKILL demo_popen [] =
     (True, [Call_CreateToolhelp32Snapshot, Call_Process32First 60, Call_Process32Next 60,
             Call_Process32Next 60, Call_CloseHandle 60, Call_TerminateProcess 50 137])
   \<and> wait (sim demo) (- 1) demo_popen (snd (send_signal (sim demo) PSIGKILL demo_popen [])) =
       (Inr 137, demo_popen\<lparr>returncode := 137\<rparr>,
        [Call_CreateToolhelp32Snapshot, Call_Process32First 60, Call_Process32Next 60,
         Call_Process32Next 60, Call_CloseHandle 60, Call_TerminateProcess 50 137,
         Call_WaitForSingleObject 50 INFINITE, Call_GetExitCodeProcess 50])
   \<and> run_popen (sim demo) demo_popen False
        (snd (send_signal (sim demo) PSIGKILL demo_popen [])) =
       Some (Inr \<lparr>cp_args = [''3''], cp_returncode = 137, cp_cout = [], cp_cerr = []\<rparr>,
             demo_popen\<lparr>returncode := 137\<rparr>,
             [Call_CreateToolhelp32Snapshot, Call_Process32First 60, Call_Process32Next 60,
              Call_Process32Next 60, Call_CloseHandle 60, Call_TerminateProcess 50 137,
              Call_WaitForSingleObject 50 INFINITE, Call_GetExitCodeProcess 50])
   \<and> sint (137 :: int64_t) \<noteq> - PSIGKILL"
  by (simp add: model_defs sim_defs)

text \<open>
  C2, amended. On the handle platform an exit code that \<open>wait\<close> reads from the
  platform is the unsigned 32-bit native exit status widened to 64 bits, so it is never
  negative, and \<open>send_signal(PSIGKILL)\<close> on a process whose exit status is not known
  asks the platform to end it with exit status 137. On the simulated platform, where an
  ended process has the exit status it was ended with: \<open>send_signal(PSIGKILL)\<close> on a
  running child succeeds, with the calls \<open>sim_kill_calls\<close>, and so does \<open>kill\<close> unless
  the soft kill is preferred; the next \<open>wait\<close>, with any timeout, returns 137 and
  caches it; and \<open>run(popen, false)\<close>, when its readers end, returns a snapshot whose
  exit code is 137.
\<close>

theorem kill_exit_code:
  "(returncode p = kBadReturnCode \<longrightarrow>
      Call_TerminateProcess (hProcess (process_info p)) 137
        \<in> set (snd (send_signal os PSIGKILL p tr)))
   \<and> (returncode p = kBadReturnCode \<and> wait os t p tr = (Inr c, p', tr') \<longrightarrow> 0 \<le> sint c)
   \<and> (snd (child_state sc tr2) = None \<and> returncode q = kBadReturnCode
        \<and> process_info q = sim_process_info \<longrightarrow>
        send_signal (sim sc) PSIGKILL q tr2 = (True, tr2 @ sim_kill_calls sc)
        \<and> (\<not> m_soft_kill q \<longrightarrow> kill (sim sc) q tr2 = (True, tr2 @ sim_kill_calls sc))
        \<and> wait (sim sc) t q (tr2 @ sim_kill_calls sc) =
            (Inr 137, q\<lparr>returncode := 137\<rparr>,
             tr2 @ sim_kill_calls sc
                 @ [Call_WaitForSingleObject 50 (timeout_ms (sim sc) t),
                    Call_GetExitCodeProcess 50])
        \<and> (args q = a0 # as
             \<and> pump_both (sim sc) q (tr2 @ sim_kill_calls sc) = Some (out, err, q1, tr3) \<longrightarrow>
             run_popen (sim sc) q False (tr2 @ sim_kill_calls sc) =
               Some (Inr \<lparr>cp_args = as, cp_returncode = 137, cp_cout = out, cp_cerr = err\<rparr>,
                     q1\<lparr>returncode := 137\<rparr>,
                     tr3 @ [Call_WaitForSingleObject 50 INFINITE, Call_GetExitCodeProcess 50])))"
  using send_signal_kill_137 [of p os tr] wait_uncached_nonneg [of p os t tr c p' tr']
    sim_kill [of sc tr2 q] sim_wait_killed [of sc tr2 q t "[]"]
    sim_run_popen_killed [of sc tr2 q a0 as out err q1 tr3]
  by (simp add: kill_def)

theorem kill_exit_code_witness:
  "Call_TerminateProcess 50 137 \<in> set (snd (send_signal (sim demo) PSIGKILL echo_popen []))
   \<and> wait (sim demo) (- 1) demo_popen [] =
       (Inr 0, demo_popen\<lparr>returncode := 0\<rparr>,
        [Call_WaitForSingleObject 50 INFINITE, Call_GetExitCodeProcess 50])
   \<and> 0 \<le> sint (0 :: int64_t)
   \<and> sim_kill_calls demo =
       [Call_CreateToolhelp32Snapshot, Call_Process32First 60, Call_Process32Next 60,
        Call_Process32Next 60, Call_CloseHandle 60, Call_TerminateProcess 50 137]
   \<and> send_signal (sim demo) PSIGKILL echo_popen [] = (True, sim_kill_calls demo)
   \<and> kill (sim demo) echo_popen [] = (True, sim_kill_calls demo)
   \<and> wait (sim demo) 1 echo_popen (sim_kill_calls demo) =
       (Inr 137, echo_popen\<lparr>returncode := 137\<rparr>,
        sim_kill_calls demo @ [Call_WaitForSingleObject 50 1000, Call_GetExitCodeProcess 50])
   \<and> run_popen (sim demo) echo_popen False (sim_kill_calls demo) =
       Some (Inr \<lparr>cp_args = [''hello'', ''world''], cp_returncode = 137,
                  cp_cout = ''hello world'', cp_cerr = []\<rparr>,
             echo_popen\<lparr>cout := kBadPipeValue, cerr := kBadPipeValue, returncode := 137\<rparr>,
             sim_kill_calls demo @
             [Call_ReadFile 100 2048, Call_ReadFile 100 2048, Call_ReadFile 100 2048,
              Call_CloseHandle 100,
              Call_WaitForSingleObject 50 INFINITE, Call_GetExitCodeProcess 50])"
proof -
  have w: "wait (sim demo) (- 1) demo_popen [] =
     (Inr 0, demo_popen\<lparr>returncode := 0\<rparr>,
      [Call_WaitForSingleObject 50 INFINITE, Call_GetExitCodeProcess 50])"
    by (simp add: model_defs sim_defs)
  have h: "snd (child_state demo []) = None" "returncode demo_popen = kBadReturnCode"
    "returncode echo_popen = kBadReturnCode" "process_info echo_popen = sim_process_info"
    "args echo_popen = ''echo'' # [''hello'', ''world'']" "\<not> m_soft_kill echo_popen"
    by (simp_all add: child_state_def demo_popen_def echo_popen_def Popen_default_def)
  have k: "sim_kill_calls demo =
       [Call_CreateToolhelp32Snapshot, Call_Process32First 60, Call_Process32Next 60,
        Call_Process32Next 60, Call_CloseHandle 60, Call_TerminateProcess 50 137]"
    by (simp add: sim_kill_calls_def demo_def sim_process_info_def)
  have pb: "pump_both (sim demo) echo_popen ([] @ sim_kill_calls demo) =
              Some (''hello world'', [],
                    echo_popen\<lparr>cout := kBadPipeValue, cerr := kBadPipeValue\<rparr>,
                    sim_kill_calls demo @
                    [Call_ReadFile 100 2048, Call_ReadFile 100 2048, Call_ReadFile 100 2048,
                     Call_CloseHandle 100])"
    unfolding k
    by (simp add: pump_both_def pump_def pipe_close_def pipe_read_all_def pipe_read_def
        pipe_read_all_loop.simps sim_defs echo_popen_def Popen_default_def kBadPipeValue_def
        Let_def)
  have ms: "timeout_ms (sim demo) 1 = 1000"
    by (simp add: timeout_ms_def sim_def demo_def)
  from w h pb ms
    kill_exit_code [where p = demo_popen and os = "sim demo" and tr = "[]" and t = "- 1"
      and c = 0 and p' = "demo_popen\<lparr>returncode := 0\<rparr>"
      and tr' = "[Call_WaitForSingleObject 50 INFINITE, Call_GetExitCodeProcess 50]"
      and sc = demo and ?tr2.0 = "[]" and q = echo_popen]
    kill_exit_code [where p = echo_popen and os = "sim demo" and tr = "[]" and t = 1
      and sc = demo and ?tr2.0 = "[]" and q = echo_popen and ?a0.0 = "''echo''"
      and as = "[''hello'', ''world'']" and out = "''hello world''" and err = "[]"
      and ?q1.0 = "echo_popen\<lparr>cout := kBadPipeValue, cerr := kBadPipeValue\<rparr>"
      and ?tr3.0 = "sim_kill_calls demo @
                    [Call_ReadFile 100 2048, Call_ReadFile 100 2048, Call_ReadFile 100 2048,
                     Call_CloseHandle 100]"]
  show ?thesis
    by (simp add: k sim_process_info_def)
qed

subsection \<open>The discarding thread\<close>

text \<open>On the descriptor platform the loop of \<open>pipe_ignore_and_close\<close> goes on as long
  as \<open>read\<close> does not fail.\<close>

lemma pipe_ignore_loop_posix_never:
  assumes nn: "\<And>tr n. fst (posix_read os tr h n) \<ge> 0"
  shows "pipe_ignore_loop_posix os h tr = None"
proof (cases "pipe_ignore_loop_posix os h tr")
  case None
  then show ?thesis .
next
  case (Some y)
  have "os = os \<and> h = h \<longrightarrow> False"
  proof (rule pipe_ignore_loop_posix.raw_induct
      [where P = "\<lambda>os' h' t y. os' = os \<and> h' = h \<longrightarrow> False", OF _ Some])
    fix f os' h' t y'
    assume IH: "\<And>o' g t y. f o' g t = Some y \<Longrightarrow> o' = os \<and> g = h \<longrightarrow> False"
      and step: "(case pipe_read_posix os' h' 1024 t of
                    ((n, buf), tr1) \<Rightarrow> if 0 \<le> n then f os' h' tr1 else Some tr1) = Some y'"
    show "os' = os \<and> h' = h \<longrightarrow> False"
    proof
      assume eq: "os' = os \<and> h' = h"
      obtain n buf tr1 where r: "pipe_read_posix os h 1024 t = ((n, buf), tr1)"
        by (metis prod.exhaust)
      have "n = fst (posix_read os t h 1024)"
        using r by (simp add: pipe_read_posix_def Let_def split: prod.splits)
      then have "0 \<le> n" using nn by simp
      with step eq r have "f os h tr1 = Some y'" by simp
      with IH show False by blast
    qed
  qed
  then show ?thesis by simp
qed

lemma sim_posix_read_nonneg:
  assumes "map_of (sc_fds sc) h = Some ms"
  shows "fst (posix_read (sim sc) tr h n) \<ge> 0"
  using assms by (simp add: sim_def posix_pipe_state_def)

text \<open>So, on the simulated descriptor platform, the thread never ends for any pipe,
  although the peer of every simulated pipe closes after its last message.\<close>

lemma sim_posix_ignore_never:
  assumes "map_of (sc_fds sc) h = Some ms" and "h \<noteq> kBadPipeValue_posix"
  shows "pipe_ignore_and_close_posix (sim sc) h tr = None"
proof -
  have "pipe_ignore_loop_posix (sim sc) h tr = None"
    by (rule pipe_ignore_loop_posix_never) (rule sim_posix_read_nonneg [OF assms(1)])
  then show ?thesis
    using assms(2) by (simp add: pipe_ignore_and_close_posix_def)
qed

text \<open>On the simulated handle platform the thread ends for every pipe and closes the
  handle: there the end of the stream is a failed read.\<close>

lemma sim_win_ignore_loop_ends:
  assumes known: "map_of (sc_pipes sc) h = Some ms0"
  shows "\<exists>tr'. pipe_ignore_loop (sim sc) h tr = Some tr'"
proof -
  define w where "w t = length (concat (foldl (win_pipe_step h) ms0 t))
                        + length (foldl (win_pipe_step h) ms0 t)" for t
  show ?thesis
  proof (induction "w tr" arbitrary: tr rule: less_induct)
    case less
    show ?case
    proof (cases "foldl (win_pipe_step h) ms0 tr")
      case Nil
      then have "pipe_read (sim sc) h 1024 tr = ((- 1, []), tr @ [Call_ReadFile h 1024])"
        using known by (simp add: pipe_read_def sim_def win_pipe_state_def)
      then show ?thesis
        by (subst pipe_ignore_loop.simps) simp
    next
      case (Cons m ms)
      then have r: "pipe_read (sim sc) h 1024 tr =
                      ((int (length (take 1024 m)), take 1024 m), tr @ [Call_ReadFile h 1024])"
        using known by (simp add: pipe_read_def sim_def win_pipe_state_def)
      have "w (tr @ [Call_ReadFile h 1024]) < w tr"
        using Cons by (auto simp: w_def)
      from less [OF this] obtain tr' where
        "pipe_ignore_loop (sim sc) h (tr @ [Call_ReadFile h 1024]) = Some tr'" ..
      with r show ?thesis
        by (subst pipe_ignore_loop.simps) simp
    qed
  qed
qed

lemma sim_win_ignore_ends:
  assumes "map_of (sc_pipes sc) h = Some ms0" and "h \<noteq> kBadPipeValue"
  shows "\<exists>tr'. pipe_ignore_and_close (sim sc) h tr = Some (tr' @ [Call_CloseHandle h])"
  using sim_win_ignore_loop_ends [OF assms(1), of tr] assms(2)
  by (auto simp: pipe_ignore_and_close_def pipe_close_def)

text \<open>
  C3. The claim: when the peer of the pipe closes, the loop of the discarding thread
  ends at the end of the stream and the handle is closed. On the descriptor platform it
  does not: here the peer of descriptor 5 has closed without writing, every
  \<open>pipe_read\<close> returns 0, which the loop condition \<open>>= 0\<close> accepts, and the thread
  never reaches \<open>pipe_close\<close>.
\<close>

theorem pipe_ignore_posix_spins:
  "pipe_read_posix (sim demo) 5 1024 [] = ((0, []), [Call_posix_read 5 1024])
   \<and> pipe_ignore_and_close_posix (sim demo) 5 [] = None"
proof -
  have "pipe_ignore_loop_posix (sim demo) 5 [] = None"
    by (rule pipe_ignore_loop_posix_never) (simp add: sim_posix_read_nonneg demo_def)
  then show ?thesis
    by (simp add: pipe_ignore_and_close_posix_def kBadPipeValue_posix_def pipe_read_posix_def
        sim_defs)
qed

subsection \<open>The result of a pipe read\<close>

text \<open>The size given to \<open>ReadFile\<close> is the requested size narrowed to 32 bits.\<close>

lemma unat_narrowed: "unat (of_nat sz :: DWORD) = sz mod 2 ^ 32"
  by (simp add: unat_of_nat)

lemma pipe_read_result:
  "fst (fst (pipe_read os h sz tr)) =
     (if fst (ReadFile os tr h (of_nat sz))
      then int (min (sz mod 2 ^ 32) (length (snd (ReadFile os tr h (of_nat sz)))))
      else - 1)"
  by (simp add: pipe_read_def Let_def unat_narrowed min_def split: prod.splits)

lemma sim_pipe_read_eos:
  assumes "win_pipe_state sc h tr = Some st"
  shows "fst (fst (pipe_read (sim sc) h sz tr)) = - 1 \<longleftrightarrow> st = []"
  using assms
  by (cases st) (simp_all add: pipe_read_result sim_def)

lemma sim_pipe_read_zero:
  assumes "win_pipe_state sc h tr = Some st"
  shows "fst (fst (pipe_read (sim sc) h sz tr)) = 0
           \<longleftrightarrow> st \<noteq> [] \<and> (hd st = [] \<or> sz mod 2 ^ 32 = 0)"
  using assms
  by (cases st) (auto simp: pipe_read_result sim_def unat_narrowed min_def)

lemma sim_pipe_read_posix_zero:
  assumes "posix_pipe_state sc fd tr = Some bs"
  shows "fst (fst (pipe_read_posix (sim sc) fd sz tr)) = 0 \<longleftrightarrow> bs = [] \<or> sz = 0"
  using assms by (auto simp: pipe_read_posix_def sim_def min_def)

lemma sim_pipe_read_posix_negative:
  "fst (fst (pipe_read_posix (sim sc) fd sz tr)) < 0 \<longleftrightarrow> posix_pipe_state sc fd tr = None"
  by (cases "posix_pipe_state sc fd tr") (simp_all add: pipe_read_posix_def sim_def)

text \<open>
  C5, as claimed, fails. At the end of the stream (no pending message, peer closed) the
  read primitive of the handle platform returns -1, the value it returns for every
  error, while the one of the descriptor platform returns 0; on the handle platform
  a zero-byte message of the peer is read as 0 although \<open>late\<close> is still to come; and
  on both platforms a read of size 0 returns 0 with data pending.
\<close>

theorem pipe_read_convention_counterexample:
  "win_pipe_state demo 104 [] = Some []
   \<and> pipe_read (sim demo) 104 1024 [] = ((- 1, []), [Call_ReadFile 104 1024])
   \<and> posix_pipe_state demo 5 [] = Some []
   \<and> pipe_read_posix (sim demo) 5 1024 [] = ((0, []), [Call_posix_read 5 1024])
   \<and> win_pipe_state demo 102 [] = Some [[], ''late'']
   \<and> pipe_read (sim demo) 102 1024 [] = ((0, []), [Call_ReadFile 102 1024])
   \<and> posix_pipe_state demo 6 [] = Some ''late''
   \<and> pipe_read_posix (sim demo) 6 0 [] = ((0, []), [Call_posix_read 6 0])
   \<and> win_pipe_state demo 100 [] = Some [''hello '', ''world'']
   \<and> pipe_read (sim demo) 100 0 [] = ((0, []), [Call_ReadFile 100 0])"
  by (simp add: pipe_read_def pipe_read_posix_def sim_defs)

text \<open>
  C5, amended. \<open>pipe_read\<close> has no convention of its own, it hands on what the native
  read answers. On the handle platform the result is -1 exactly when \<open>ReadFile\<close> fails,
  whatever the reason, and otherwise the number of bytes transferred, from 0 to the
  requested size narrowed to 32 bits; on the descriptor platform the result is that of
  \<open>read\<close>. On the simulated platforms, for a pipe in state \<open>st\<close> (the pending messages)
  or \<open>bs\<close> (the pending bytes), whose peer closes after them:
  \<^item> handle platform: the result is -1 exactly at the end of the stream, and 0 exactly
    when a message is pending and either it is a zero-byte message or the narrowed size
    is 0, so 0 is never the end of the stream;
  \<^item> descriptor platform: the result is 0 exactly at the end of the stream or when the
    size asked for is 0, and it is negative exactly for a descriptor that is no pipe.
  So the end of the stream is reported as -1 on one platform and as 0 on the other.
\<close>

theorem pipe_read_convention:
  "(fst (fst (pipe_read os h sz tr)) = - 1 \<longleftrightarrow> \<not> fst (ReadFile os tr h (of_nat sz)))
   \<and> - 1 \<le> fst (fst (pipe_read os h sz tr))
   \<and> fst (fst (pipe_read os h sz tr)) \<le> int (sz mod 2 ^ 32)
   \<and> fst (fst (pipe_read_posix os fd sz tr)) = fst (posix_read os tr fd sz)
   \<and> (win_pipe_state sc h tr = Some st \<longrightarrow>
        (fst (fst (pipe_read (sim sc) h sz tr)) = - 1 \<longleftrightarrow> st = [])
        \<and> (fst (fst (pipe_read (sim sc) h sz tr)) = 0
             \<longleftrightarrow> st \<noteq> [] \<and> (hd st = [] \<or> sz mod 2 ^ 32 = 0)))
   \<and> (posix_pipe_state sc fd tr = Some bs \<longrightarrow>
        (fst (fst (pipe_read_posix (sim sc) fd sz tr)) = 0 \<longleftrightarrow> bs = [] \<or> sz = 0))
   \<and> (fst (fst (pipe_read_posix (sim sc) fd sz tr)) < 0
        \<longleftrightarrow> posix_pipe_state sc fd tr = None)"
proof -
  have a: "fst (fst (pipe_read os h sz tr)) = - 1 \<longleftrightarrow> \<not> fst (ReadFile os tr h (of_nat sz))"
    by (simp add: pipe_read_result)
  have b: "- 1 \<le> fst (fst (pipe_read os h sz tr))"
    by (simp add: pipe_read_result)
  have c: "fst (fst (pipe_read os h sz tr)) \<le> int (sz mod 2 ^ 32)"
    by (simp add: pipe_read_result)
  have d: "fst (fst (pipe_read_posix os fd sz tr)) = fst (posix_read os tr fd sz)"
    by (simp add: pipe_read_posix_def split: prod.splits)
  from a b c d sim_pipe_read_eos [of sc h tr st sz] sim_pipe_read_zero [of sc h tr st sz]
    sim_pipe_read_posix_zero [of sc fd tr bs sz] sim_pipe_read_posix_negative [of sc fd sz tr]
  show ?thesis by simp
qed

theorem pipe_read_convention_witness:
  "win_pipe_state demo 104 [] = Some []
   \<and> fst (fst (pipe_read (sim demo) 104 1024 [])) = - 1
   \<and> win_pipe_state demo 102 [] = Some [[], ''late'']
   \<and> fst (fst (pipe_read (sim demo) 102 1024 [])) = 0
   \<and> win_pipe_state demo 100 [] = Some [''hello '', ''world'']
   \<and> fst (fst (pipe_read (sim demo) 100 (2 ^ 32) [])) = 0
   \<and> fst (fst (pipe_read (sim demo) 100 1024 [])) \<noteq> 0
   \<and> posix_pipe_state demo 5 [] = Some []
   \<and> fst (fst (pipe_read_posix (sim demo) 5 1024 [])) = 0
   \<and> posix_pipe_state demo 6 [] = Some ''late''
   \<and> fst (fst (pipe_read_posix (sim demo) 6 0 [])) = 0
   \<and> fst (fst (pipe_read_posix (sim demo) 6 1024 [])) \<noteq> 0"
proof -
  have h: "win_pipe_state demo 104 [] = Some []"
    "win_pipe_state demo 102 [] = Some [[], ''late'']"
    "win_pipe_state demo 100 [] = Some [''hello '', ''world'']"
    "posix_pipe_state demo 5 [] = Some []"
    "posix_pipe_state demo 6 [] = Some ''late''"
    by (simp_all add: win_pipe_state_def posix_pipe_state_def demo_def)
  from h
    pipe_read_convention [of "sim demo" 104 1024 "[]" 5 demo "[]" "[]"]
    pipe_read_convention [of "sim demo" 102 1024 "[]" 5 demo "[[], ''late'']" "[]"]
    pipe_read_convention [of "sim demo" 100 "2 ^ 32" "[]" 6 demo "[''hello '', ''world'']" "''late''"]
    pipe_read_convention [of "sim demo" 100 1024 "[]" 6 demo "[''hello '', ''world'']" "''late''"]
    pipe_read_convention [of "sim demo" 100 0 "[]" 6 demo "[''hello '', ''world'']" "''late''"]
  show ?thesis by simp
qed

end
